theory Spec2Isabelle
  imports
    Complex_Main
    "HOL-Library.AList"
    "HOL-Library.Sublist"
    "HOL-Library.Product_Lexorder"
begin

section \<open>Python notions shared by the two adapter scripts\<close>

text \<open>
  Both scripts are thin adapters around an external engine. The engine, the file system,
  the process environment and the importability of the libraries are inputs of the model
  (a record called the world); the scripts' own logic is translated line by line.

  A Python float is represented by the rational number it stands for. The sum and the
  difference of two floats are not the exact ones: they are what the interpreter's
  floating-point unit returns, and are taken from the world (\<open>float_add\<close>,
  \<open>float_sub\<close>). \<open>round(x, n)\<close> rounds the exact value of \<open>x\<close> to \<open>n\<close>
  decimals, ties to even, and is given as the decimal the result prints as.

  An exception is represented by what the handlers of the scripts look at: whether it is an
  instance of \<open>Exception\<close> (the only class the handlers catch) and its \<open>str(e)\<close>.
\<close>

datatype py_exception =
    PyException string        \<comment> \<open>an instance of \<open>Exception\<close>; the field is \<open>str(e)\<close>\<close>
  | PyBaseException string    \<comment> \<open>\<open>KeyboardInterrupt\<close>, \<open>SystemExit\<close>, ...: not an \<open>Exception\<close>\<close>

text \<open>What a script run leaves behind: the document printed on standard output and the
  exit code, or an exception that nothing caught.\<close>

datatype 'r outcome =
    Exited (printed: 'r) (exit_code: nat)
  | Unhandled py_exception

text \<open>\<open>except Exception as e: return {"success": False, "error": str(e)}\<close>, the handler
  both scripts put around the engine calls: an \<open>Exception\<close> becomes the failure
  dictionary (built by \<open>failure\<close>); any other exception leaves the function.\<close>

fun except_Exception :: "(string \<Rightarrow> 'r) \<Rightarrow> py_exception \<Rightarrow> py_exception + 'r" where
  "except_Exception failure (PyException msg) = Inr (failure msg)"
| "except_Exception failure (PyBaseException msg) = Inl (PyBaseException msg)"

text \<open>Truthiness of an optional string (\<open>None\<close> and \<open>""\<close> are falsy), and
  Python's \<open>a or b\<close>, which yields \<open>a\<close> when it is truthy and \<open>b\<close> otherwise.\<close>

definition truthy :: "string option \<Rightarrow> bool" where
  "truthy v = (case v of None \<Rightarrow> False | Some s \<Rightarrow> s \<noteq> [])"

definition py_or :: "string option \<Rightarrow> string option \<Rightarrow> string option" where
  "py_or a b = (if truthy a then a else b)"

text \<open>\<open>str(n)\<close> for a non-negative integer, as the f-strings use it.\<close>

fun str_nat :: "nat \<Rightarrow> string" where
  "str_nat n =
     (if n < 10 then [''0123456789'' ! n]
      else str_nat (n div 10) @ [''0123456789'' ! (n mod 10)])"

declare str_nat.simps [simp del]

text \<open>\<open>round(x, ndigits)\<close>: the nearest multiple of \<open>10 ^ -ndigits\<close>, a tie going to
  the even one.\<close>

definition round_half_even :: "rat \<Rightarrow> int" where
  "round_half_even x =
     (let f = \<lfloor>x\<rfloor>; d = x - of_int f
      in if d < 1 / 2 then f
         else if 1 / 2 < d then f + 1
         else if even f then f else f + 1)"

definition py_round :: "rat \<Rightarrow> nat \<Rightarrow> rat" where
  "py_round x ndigits = of_int (round_half_even (x * 10 ^ ndigits)) / 10 ^ ndigits"


section \<open>The diarization adapter (speaker_diarize.py)\<close>

subsection \<open>Data\<close>

text \<open>One item of \<open>diarization.itertracks(yield_label=True)\<close>: the turn's interval and
  the speaker label.\<close>

record track =
  turn_start :: rat
  turn_end :: rat
  speaker_label :: string

record segment =
  seg_start :: rat
  seg_end :: rat
  speaker :: string
  speakerId :: nat

record speaker_entry =
  speaker_id :: nat
  name :: string
  total_duration :: rat

text \<open>The dictionary a function returns: the success shape or the failure shape.\<close>

datatype diar_result =
    DiarSuccess (diar_method: string) (speaker_count: nat)
                (segments: "segment list") (speakers: "speaker_entry list")
  | DiarFailure (error: string)

fun success :: "diar_result \<Rightarrow> bool" where
  "success (DiarSuccess m n segs sps) = True"
| "success (DiarFailure e) = False"

text \<open>The external calls of the engine path, in the order they are made.\<close>

datatype diar_call =
    ImportPyannote
  | FromPretrained string string     \<comment> \<open>checkpoint name, \<open>use_auth_token\<close>\<close>
  | CudaIsAvailable
  | PipelineTo string
  | PipelineCall string              \<comment> \<open>\<open>pipeline(audio_path)\<close> and the iteration over its tracks\<close>

text \<open>The world of one run. \<open>'p\<close> is the engine's pipeline object;
  \<open>float_add\<close> and \<open>float_sub\<close> are \<open>+\<close> and \<open>-\<close> on floats as the interpreter
  computes them; \<open>pyannote_importable\<close> says that both imports of lines 38 and 39 succeed, the other case
  being an \<open>ImportError\<close>; \<open>pipeline_to\<close> yields the pipeline as \<open>pipeline.to(device)\<close>
  leaves it; \<open>pipeline_call\<close> yields the items of \<open>itertracks\<close> in order, or the
  exception raised before the last of them is read.\<close>

record 'p diar_world =
  os_path_exists :: "string \<Rightarrow> bool"
  pyannote_importable :: bool
  environ :: "string \<Rightarrow> string option"
  from_pretrained :: "string \<Rightarrow> string \<Rightarrow> py_exception + 'p"
  cuda_is_available :: bool
  pipeline_to :: "'p \<Rightarrow> string \<Rightarrow> py_exception + 'p"
  pipeline_call :: "'p \<Rightarrow> string \<Rightarrow> py_exception + track list"
  float_add :: "rat \<Rightarrow> rat \<Rightarrow> rat"
  float_sub :: "rat \<Rightarrow> rat \<Rightarrow> rat"

record diar_args =
  audio_path :: string
  token :: "string option"
  simple :: bool

subsection \<open>simple_diarization\<close>

definition simple_diarization :: "string \<Rightarrow> diar_result" where
  "simple_diarization path =
     DiarSuccess ''fallback'' 1 []
       [\<lparr>speaker_id = 1, name = ''Speaker 1'', total_duration = 0\<rparr>]"

subsection \<open>pyannote_diarization\<close>

text \<open>Line 47: \<open>hf_token or os.environ.get("HUGGINGFACE_TOKEN") or os.environ.get("HF_TOKEN")\<close>.\<close>

definition resolve_token :: "string option \<Rightarrow> (string \<Rightarrow> string option) \<Rightarrow> string option" where
  "resolve_token hf_token env =
     py_or (py_or hf_token (env ''HUGGINGFACE_TOKEN'')) (env ''HF_TOKEN'')"

text \<open>The variables of the loop over the tracks (lines 70 to 73). The two dictionaries are
  association lists in insertion order, as a Python \<open>dict\<close> keeps them.\<close>

record loop_state =
  seg_list :: "segment list"
  speaker_times :: "(nat \<times> rat) list"
  speaker_mapping :: "(string \<times> nat) list"
  speaker_counter :: nat

definition initial_state :: loop_state where
  "initial_state =
     \<lparr>seg_list = [], speaker_times = [], speaker_mapping = [], speaker_counter = 1\<rparr>"

text \<open>Lines 77 to 81: a label not yet in \<open>speaker_mapping\<close> gets the counter's value and
  the counter moves on; the look-up that follows finds the value just stored, or the one
  stored earlier. The result is the new mapping, the new counter and \<open>speaker_id\<close>.\<close>

definition map_speaker ::
  "(string \<times> nat) list \<Rightarrow> nat \<Rightarrow> string \<Rightarrow> (string \<times> nat) list \<times> nat \<times> nat" where
  "map_speaker mapping counter lbl =
     (case map_of mapping lbl of
        None \<Rightarrow> (AList.update lbl counter mapping, counter + 1, counter)
      | Some sid \<Rightarrow> (mapping, counter, sid))"

text \<open>Lines 85 to 87: a missing entry starts at 0, then the turn's length is added, in
  floating point.\<close>

definition track_duration ::
  "'p diar_world \<Rightarrow> (nat \<times> rat) list \<Rightarrow> nat \<Rightarrow> rat \<Rightarrow> (nat \<times> rat) list" where
  "track_duration w stimes sid d =
     (case map_of stimes sid of
        None \<Rightarrow> AList.update sid (float_add w 0 d) stimes
      | Some t \<Rightarrow> AList.update sid (float_add w t d) stimes)"

text \<open>Lines 89 to 94: the dictionary appended to \<open>segments\<close>.\<close>

definition make_segment :: "nat \<Rightarrow> track \<Rightarrow> segment" where
  "make_segment sid t =
     \<lparr>seg_start = py_round (turn_start t) 3, seg_end = py_round (turn_end t) 3,
      speaker = ''Speaker '' @ str_nat sid, speakerId = sid\<rparr>"

text \<open>One pass of the loop body (lines 76 to 94).\<close>

definition process_track :: "'p diar_world \<Rightarrow> loop_state \<Rightarrow> track \<Rightarrow> loop_state" where
  "process_track w st t =
     (case map_speaker (speaker_mapping st) (speaker_counter st) (speaker_label t) of
        (mapping, counter, sid) \<Rightarrow>
          \<lparr>seg_list = seg_list st @ [make_segment sid t],
           speaker_times =
             track_duration w (speaker_times st) sid (float_sub w (turn_end t) (turn_start t)),
           speaker_mapping = mapping,
           speaker_counter = counter\<rparr>)"

definition process_tracks :: "'p diar_world \<Rightarrow> track list \<Rightarrow> loop_state" where
  "process_tracks w ts = foldl (process_track w) initial_state ts"

text \<open>Lines 97 to 104: the list comprehension over \<open>sorted(speaker_times.items())\<close>; the
  items are pairs, sorted lexicographically.\<close>

definition build_speakers :: "(nat \<times> rat) list \<Rightarrow> speaker_entry list" where
  "build_speakers stimes =
     map (\<lambda>(sid, duration).
            \<lparr>speaker_id = sid, name = ''Speaker '' @ str_nat sid,
             total_duration = py_round duration 2\<rparr>)
         (sort stimes)"

text \<open>Lines 106 to 112.\<close>

definition build_result :: "loop_state \<Rightarrow> diar_result" where
  "build_result st =
     (let sps = build_speakers (speaker_times st)
      in DiarSuccess ''pyannote'' (length sps) (seg_list st) sps)"

text \<open>Lines 57 to 75, the engine's part of the \<open>try\<close> block: load the pipeline, move it to
  the GPU when there is one, run it on the file and read its tracks. Each call is logged,
  and the first exception ends the block.\<close>

definition run_engine ::
  "'p diar_world \<Rightarrow> string \<Rightarrow> string \<Rightarrow> diar_call list \<times> (py_exception + track list)" where
  "run_engine w tok path =
     (let c1 = [FromPretrained ''pyannote/speaker-diarization-3.1'' tok]
      in case from_pretrained w ''pyannote/speaker-diarization-3.1'' tok of
           Inl e \<Rightarrow> (c1, Inl e)
         | Inr pipeline \<Rightarrow>
             if cuda_is_available w then
               (case pipeline_to w pipeline ''cuda'' of
                  Inl e \<Rightarrow> (c1 @ [CudaIsAvailable, PipelineTo ''cuda''], Inl e)
                | Inr pipeline' \<Rightarrow>
                    (c1 @ [CudaIsAvailable, PipelineTo ''cuda'', PipelineCall path],
                     pipeline_call w pipeline' path))
             else (c1 @ [CudaIsAvailable, PipelineCall path], pipeline_call w pipeline path))"

definition pyannote_diarization ::
  "'p diar_world \<Rightarrow> string \<Rightarrow> string option \<Rightarrow> diar_call list \<times> (py_exception + diar_result)" where
  "pyannote_diarization w path hf_token =
     (if \<not> pyannote_importable w then
        ([ImportPyannote],
         Inr (DiarFailure ''pyannote.audio not installed. Run: pip install pyannote.audio torch''))
      else
        (case resolve_token hf_token (environ w) of
           None \<Rightarrow>
             ([ImportPyannote],
              Inr (DiarFailure
                ''HuggingFace token required. Set HUGGINGFACE_TOKEN environment variable.''))
         | Some tok \<Rightarrow>
             if tok = [] then
               ([ImportPyannote],
                Inr (DiarFailure
                  ''HuggingFace token required. Set HUGGINGFACE_TOKEN environment variable.''))
             else
               (case run_engine w tok path of
                  (calls, Inl e) \<Rightarrow> (ImportPyannote # calls, except_Exception DiarFailure e)
                | (calls, Inr tracks) \<Rightarrow>
                    (ImportPyannote # calls, Inr (build_result (process_tracks w tracks))))))"

subsection \<open>main\<close>

text \<open>Lines 129 to 140. The arguments are those \<open>argparse\<close> has accepted.\<close>

definition finish :: "diar_call list \<times> (py_exception + diar_result) \<Rightarrow> diar_call list \<times> diar_result outcome" where
  "finish r =
     (case r of
        (calls, Inl e) \<Rightarrow> (calls, Unhandled e)
      | (calls, Inr result) \<Rightarrow> (calls, Exited result (if success result then 0 else 1)))"

definition diarize_main :: "'p diar_world \<Rightarrow> diar_args \<Rightarrow> diar_call list \<times> diar_result outcome" where
  "diarize_main w args =
     (if \<not> os_path_exists w (audio_path args) then
        ([], Exited (DiarFailure (''Audio file not found: '' @ audio_path args)) 1)
      else if simple args then
        finish ([], Inr (simple_diarization (audio_path args)))
      else
        finish (pyannote_diarization w (audio_path args) (token args)))"


section \<open>The transcription adapter (whisper_transcribe.py)\<close>

subsection \<open>Data\<close>

text \<open>The values the script copies from the engine's result without looking into them.\<close>

datatype pyval = PyNone | PyBool bool | PyInt int | PyFloat rat | PyStr string

type_synonym py_dict = "(string \<times> pyval) list"

text \<open>The engine's result is a dictionary; its entry \<open>"segments"\<close>, when there is one, is
  a list of dictionaries, whose entry \<open>"words"\<close>, when there is one, is a list of
  dictionaries. The records keep these two entries apart from the other entries of their
  dictionary; every key may be missing, and a word or a segment may carry more keys than
  the script reads (\<open>probability\<close>, \<open>id\<close>, \<open>tokens\<close>, ...).\<close>

record engine_segment =
  seg_items :: py_dict
  seg_words :: "py_dict list option"

record engine_result =
  res_items :: py_dict
  res_segments :: "engine_segment list option"

record out_segment =
  tseg_start :: pyval
  tseg_end :: pyval
  tseg_text :: pyval

record out_word =
  word_word :: pyval
  word_start :: pyval
  word_end :: pyval

datatype transcription_result =
    TransSuccess (t_text: pyval) (t_language: pyval)
                 (t_segments: "out_segment list") (t_words: "out_word list")
  | TransFailure (t_error: string)

fun t_success :: "transcription_result \<Rightarrow> bool" where
  "t_success (TransSuccess txt lang segs wds) = True"
| "t_success (TransFailure e) = False"

datatype whisper_call =
    ImportWhisper
  | LoadModel string
  | Transcribe string py_dict        \<comment> \<open>the path and the keyword options\<close>

text \<open>The world of one run. \<open>'m\<close> is the engine's model object; \<open>path_exists p\<close> is
  \<open>Path(p).exists()\<close>, which answers or raises (an \<open>OSError\<close> other than the ones
  that mean there is no such file: name too long, permission denied), and \<open>path_str p\<close>
  is \<open>str(Path(p))\<close>, both from the standard library.\<close>

record 'm whisper_world =
  whisper_importable :: bool
  path_exists :: "string \<Rightarrow> py_exception + bool"
  path_str :: "string \<Rightarrow> string"
  load_model :: "string \<Rightarrow> py_exception + 'm"
  transcribe :: "'m \<Rightarrow> string \<Rightarrow> py_dict \<Rightarrow> py_exception + engine_result"

text \<open>The values \<open>argparse\<close> accepts for \<open>--model\<close>.\<close>

datatype model_size = Tiny | Base | Small | Medium | Large

fun model_name :: "model_size \<Rightarrow> string" where
  "model_name Tiny = ''tiny''"
| "model_name Base = ''base''"
| "model_name Small = ''small''"
| "model_name Medium = ''medium''"
| "model_name Large = ''large''"

record whisper_args =
  w_audio_path :: string
  w_model :: model_size
  w_language :: "string option"

subsection \<open>transcribe_audio\<close>

text \<open>\<open>d[k]\<close> on a dictionary: a missing key raises \<open>KeyError(k)\<close>, whose \<open>str\<close> is the
  key between single quotes.\<close>

definition KeyError :: "string \<Rightarrow> py_exception" where
  "KeyError k = PyException ([CHR 0x27] @ k @ [CHR 0x27])"

definition subscript :: "py_dict \<Rightarrow> string \<Rightarrow> py_exception + pyval" where
  "subscript d k = (case map_of d k of None \<Rightarrow> Inl (KeyError k) | Some v \<Rightarrow> Inr v)"

text \<open>Lines 40 to 46.\<close>

definition build_options :: "string option \<Rightarrow> py_dict" where
  "build_options language =
     (let options = [(''word_timestamps'', PyBool True), (''verbose'', PyBool False)]
      in case language of
           None \<Rightarrow> options
         | Some l \<Rightarrow>
             if l \<noteq> [] \<and> l \<noteq> ''auto'' then AList.update ''language'' (PyStr l) options
             else options)"

text \<open>Lines 72 to 76.\<close>

definition word_data :: "py_dict \<Rightarrow> py_exception + out_word" where
  "word_data word =
     (case subscript word ''word'' of Inl e \<Rightarrow> Inl e | Inr w \<Rightarrow>
     (case subscript word ''start'' of Inl e \<Rightarrow> Inl e | Inr s \<Rightarrow>
     (case subscript word ''end'' of Inl e \<Rightarrow> Inl e | Inr e' \<Rightarrow>
        Inr \<lparr>word_word = w, word_start = s, word_end = e'\<rparr>)))"

text \<open>Lines 71 to 77: the inner loop appends to \<open>formatted_result["words"]\<close>.\<close>

fun append_words :: "py_dict list \<Rightarrow> out_word list \<Rightarrow> py_exception + out_word list" where
  "append_words [] wds = Inr wds"
| "append_words (word # rest) wds =
     (case word_data word of
        Inl e \<Rightarrow> Inl e
      | Inr wd \<Rightarrow> append_words rest (wds @ [wd]))"

text \<open>Lines 62 to 66.\<close>

definition segment_data :: "engine_segment \<Rightarrow> py_exception + out_segment" where
  "segment_data segment =
     (case subscript (seg_items segment) ''start'' of Inl e \<Rightarrow> Inl e | Inr s \<Rightarrow>
     (case subscript (seg_items segment) ''end'' of Inl e \<Rightarrow> Inl e | Inr e' \<Rightarrow>
     (case subscript (seg_items segment) ''text'' of Inl e \<Rightarrow> Inl e | Inr t \<Rightarrow>
        Inr \<lparr>tseg_start = s, tseg_end = e', tseg_text = t\<rparr>)))"

text \<open>Lines 61 to 77: the outer loop appends to \<open>formatted_result["segments"]\<close> and, for a
  segment with a \<open>"words"\<close> entry, runs the inner loop.\<close>

fun append_segments ::
  "engine_segment list \<Rightarrow> out_segment list \<times> out_word list \<Rightarrow>
   py_exception + (out_segment list \<times> out_word list)" where
  "append_segments [] acc = Inr acc"
| "append_segments (segment # rest) (segs, wds) =
     (case segment_data segment of
        Inl e \<Rightarrow> Inl e
      | Inr sd \<Rightarrow>
          (case seg_words segment of
             None \<Rightarrow> append_segments rest (segs @ [sd], wds)
           | Some ws \<Rightarrow>
               (case append_words ws wds of
                  Inl e \<Rightarrow> Inl e
                | Inr wds' \<Rightarrow> append_segments rest (segs @ [sd], wds'))))"

text \<open>Lines 51 to 79.\<close>

definition format_result :: "engine_result \<Rightarrow> py_exception + transcription_result" where
  "format_result result =
     (case subscript (res_items result) ''text'' of
        Inl e \<Rightarrow> Inl e
      | Inr txt \<Rightarrow>
          (let lang = (case map_of (res_items result) ''language'' of
                         None \<Rightarrow> PyStr ''unknown''
                       | Some l \<Rightarrow> l)
           in case res_segments result of
                None \<Rightarrow> Inr (TransSuccess txt lang [] [])
              | Some segs \<Rightarrow>
                  (case append_segments segs ([], []) of
                     Inl e \<Rightarrow> Inl e
                   | Inr (ss, ws) \<Rightarrow> Inr (TransSuccess txt lang ss ws))))"

text \<open>Lines 33 to 85.\<close>

definition transcribe_audio ::
  "'m whisper_world \<Rightarrow> string \<Rightarrow> string \<Rightarrow> string option \<Rightarrow>
   whisper_call list \<times> (py_exception + transcription_result)" where
  "transcribe_audio w path mname language =
     (case load_model w mname of
        Inl e \<Rightarrow> ([LoadModel mname], except_Exception TransFailure e)
      | Inr model \<Rightarrow>
          (let options = build_options language;
               calls = [LoadModel mname, Transcribe path options]
           in case transcribe w model path options of
                Inl e \<Rightarrow> (calls, except_Exception TransFailure e)
              | Inr result \<Rightarrow>
                  (case format_result result of
                     Inl e \<Rightarrow> (calls, except_Exception TransFailure e)
                   | Inr formatted \<Rightarrow> (calls, Inr formatted))))"

subsection \<open>main and the module's import guard\<close>

text \<open>Lines 87 to 115. The existence check of line 99 stands outside any \<open>try\<close>: an
  exception it raises ends the run.\<close>

definition whisper_main ::
  "'m whisper_world \<Rightarrow> whisper_args \<Rightarrow> whisper_call list \<times> transcription_result outcome" where
  "whisper_main w args =
     (case path_exists w (w_audio_path args) of
        Inl e \<Rightarrow> ([], Unhandled e)
      | Inr found \<Rightarrow>
          if \<not> found then
            ([], Exited (TransFailure
                   (''Audio file not found: '' @ path_str w (w_audio_path args))) 1)
          else
            (case transcribe_audio w (w_audio_path args) (model_name (w_model args))
                    (w_language args) of
               (calls, Inl e) \<Rightarrow> (calls, Unhandled e)
             | (calls, Inr result) \<Rightarrow>
                 (calls, Exited result (if t_success result then 0 else 1))))"

text \<open>Lines 12 to 19 run when the module is loaded, before \<open>main\<close>.\<close>

definition whisper_script ::
  "'m whisper_world \<Rightarrow> whisper_args \<Rightarrow> whisper_call list \<times> transcription_result outcome" where
  "whisper_script w args =
     (if \<not> whisper_importable w then
        ([ImportWhisper],
         Exited (TransFailure ''Whisper not installed. Run: pip install openai-whisper'') 1)
      else
        (case whisper_main w args of (calls, out) \<Rightarrow> (ImportWhisper # calls, out)))"


section \<open>Notions used to state the properties\<close>

text \<open>The id the specification gives a speaker label: ids are dense, start at 1 and follow
  the order of first appearance, so the id of a label is one more than the number of
  distinct labels seen before its first occurrence.\<close>

definition first_appearance_id :: "string list \<Rightarrow> string \<Rightarrow> nat" where
  "first_appearance_id labels l = Suc (card (set (takeWhile (\<lambda>x. x \<noteq> l) labels)))"

text \<open>The talk time of the speaker with id \<open>i\<close>: the floating-point lengths of the engine's
  turns whose label has that id, added in floating point, from 0, in the order of the
  turns.\<close>

definition speaking_time :: "'p diar_world \<Rightarrow> track list \<Rightarrow> nat \<Rightarrow> rat" where
  "speaking_time w ts i =
     foldl (float_add w) 0
       (map (\<lambda>t. float_sub w (turn_end t) (turn_start t))
          (filter (\<lambda>t. first_appearance_id (map speaker_label ts) (speaker_label t) = i) ts))"

text \<open>The same sum, taken over the turns that stand behind the entries of \<open>segments\<close> with a
  given \<open>speakerId\<close>.\<close>

definition turns_total :: "'p diar_world \<Rightarrow> track list \<Rightarrow> segment list \<Rightarrow> nat \<Rightarrow> rat" where
  "turns_total w ts segs sid =
     foldl (float_add w) 0
       (map (\<lambda>(t, s). float_sub w (turn_end t) (turn_start t))
          (filter (\<lambda>(t, s). speakerId s = sid) (zip ts segs)))"

text \<open>The sum of \<open>end - start\<close> over the entries of \<open>segments\<close> with a given
  \<open>speakerId\<close>, for a given addition and subtraction.\<close>

definition segments_total ::
  "(rat \<Rightarrow> rat \<Rightarrow> rat) \<Rightarrow> (rat \<Rightarrow> rat \<Rightarrow> rat) \<Rightarrow> segment list \<Rightarrow> nat \<Rightarrow> rat" where
  "segments_total add sub segs sid =
     foldl add 0 (map (\<lambda>s. sub (seg_end s) (seg_start s)) (filter (\<lambda>s. speakerId s = sid) segs))"

text \<open>\<open>r\<close> is \<open>x\<close> rounded to \<open>n\<close> decimal places: a multiple of \<open>10 ^ -n\<close> at most half
  a unit of the last place away from \<open>x\<close>, the even multiple when \<open>x\<close> lies halfway.\<close>

definition rounded_to :: "nat \<Rightarrow> rat \<Rightarrow> rat \<Rightarrow> bool" where
  "rounded_to n x r =
     (let k = \<lfloor>r * 10 ^ n\<rfloor>
      in of_int k = r * 10 ^ n
         \<and> \<bar>x * 10 ^ n - of_int k\<bar> \<le> 1 / 2
         \<and> (\<bar>x * 10 ^ n - of_int k\<bar> = 1 / 2 \<longrightarrow> even k))"

text \<open>What holds of the loop's variables once the tracks \<open>ts\<close> have been processed.\<close>

definition loop_invariant :: "'p diar_world \<Rightarrow> track list \<Rightarrow> loop_state \<Rightarrow> bool" where
  "loop_invariant w ts st =
     (let ls = map speaker_label ts; n = card (set ls)
      in (\<forall>l. map_of (speaker_mapping st) l =
                (if l \<in> set ls then Some (first_appearance_id ls l) else None))
         \<and> speaker_counter st = Suc n
         \<and> seg_list st = map (\<lambda>t. make_segment (first_appearance_id ls (speaker_label t)) t) ts
         \<and> speaker_times st = map (\<lambda>i. (i, speaking_time w ts i)) [1..<Suc n])"

text \<open>\<open>d.get(k)\<close>: the value under a key, \<open>None\<close> when the key is missing. The script
  does not call it on words or segments; it serves to name the entries the script copies.\<close>

definition dict_get :: "py_dict \<Rightarrow> string \<Rightarrow> pyval" where
  "dict_get d k = (case map_of d k of None \<Rightarrow> PyNone | Some v \<Rightarrow> v)"

text \<open>A word that carries the three keys the script reads, and a segment that carries its
  three; the engine's documented result always does.\<close>

definition word_complete :: "py_dict \<Rightarrow> bool" where
  "word_complete d =
     (map_of d ''word'' \<noteq> None \<and> map_of d ''start'' \<noteq> None \<and> map_of d ''end'' \<noteq> None)"

definition segment_complete :: "engine_segment \<Rightarrow> bool" where
  "segment_complete s =
     (map_of (seg_items s) ''start'' \<noteq> None \<and> map_of (seg_items s) ''end'' \<noteq> None
      \<and> map_of (seg_items s) ''text'' \<noteq> None)"

text \<open>The output entries that hold a word's, or a segment's, values as they are.\<close>

definition copied_word :: "py_dict \<Rightarrow> out_word" where
  "copied_word d =
     \<lparr>word_word = dict_get d ''word'', word_start = dict_get d ''start'',
      word_end = dict_get d ''end''\<rparr>"

definition copied_segment :: "engine_segment \<Rightarrow> out_segment" where
  "copied_segment s =
     \<lparr>tseg_start = dict_get (seg_items s) ''start'', tseg_end = dict_get (seg_items s) ''end'',
      tseg_text = dict_get (seg_items s) ''text''\<rparr>"

definition words_of :: "engine_segment \<Rightarrow> py_dict list" where
  "words_of s = (case seg_words s of None \<Rightarrow> [] | Some ws \<Rightarrow> ws)"


section \<open>Concrete runs\<close>

text \<open>The floating-point arithmetic of the machines below is IEEE 754 binary64 with rounding
  to nearest, ties to even: \<open>binary64 x\<close> is the double nearest to \<open>x\<close> (53 significant
  bits, least exponent \<open>-1074\<close>), for \<open>x\<close> below the overflow threshold. It is also the
  double a decimal literal denotes.\<close>

definition pow2 :: "int \<Rightarrow> rat" where
  "pow2 e = (if 0 \<le> e then 2 ^ nat e else 1 / 2 ^ nat (- e))"

fun bit_length :: "int \<Rightarrow> int" where
  "bit_length p = (if p \<le> 0 then 0 else bit_length (p div 2) + 1)"

declare bit_length.simps [simp del]

definition floor_log2 :: "rat \<Rightarrow> int" where
  "floor_log2 x =
     (case quotient_of x of
        (p, q) \<Rightarrow>
          (let e = bit_length p - bit_length q
           in if pow2 e \<le> x then e else e - 1))"

definition binary64 :: "rat \<Rightarrow> rat" where
  "binary64 x =
     (if x = 0 then 0
      else let q = max (floor_log2 \<bar>x\<bar> - 52) (- 1074)
           in of_int (round_half_even (x / pow2 q)) * pow2 q)"

text \<open>Turns labelled A, B, A that last 2.0, 1.5 and 3.0 seconds.\<close>

definition three_turns :: "track list" where
  "three_turns =
     [\<lparr>turn_start = 0, turn_end = 2, speaker_label = ''A''\<rparr>,
      \<lparr>turn_start = 2, turn_end = 7 / 2, speaker_label = ''B''\<rparr>,
      \<lparr>turn_start = 7 / 2, turn_end = 13 / 2, speaker_label = ''A''\<rparr>]"

text \<open>Turns labelled A, B, A with the boundaries 0.0, 0.1, 0.2 and 0.605; none but the first
  is a binary fraction, and the sums and differences below are rounded ones.\<close>

definition decimal_turns :: "track list" where
  "decimal_turns =
     [\<lparr>turn_start = 0, turn_end = binary64 (1 / 10), speaker_label = ''A''\<rparr>,
      \<lparr>turn_start = binary64 (1 / 10), turn_end = binary64 (1 / 5), speaker_label = ''B''\<rparr>,
      \<lparr>turn_start = binary64 (1 / 5), turn_end = binary64 (121 / 200), speaker_label = ''A''\<rparr>]"

text \<open>A single turn of 1/128 s (0.0078125, a binary fraction).\<close>

definition short_turn :: "track list" where
  "short_turn = [\<lparr>turn_start = 0, turn_end = 1 / 128, speaker_label = ''A''\<rparr>]"

text \<open>A machine with the engine installed and no GPU, where \<open>talk.wav\<close> is the only file;
  the environment and what the pipeline yields are left open.\<close>

definition engine_world ::
  "(string \<Rightarrow> string option) \<Rightarrow> (py_exception + track list) \<Rightarrow> unit diar_world" where
  "engine_world env res =
     \<lparr>os_path_exists = (\<lambda>p. p = ''talk.wav''), pyannote_importable = True, environ = env,
      from_pretrained = (\<lambda>ckpt tok. Inr ()), cuda_is_available = False,
      pipeline_to = (\<lambda>p dev. Inr p), pipeline_call = (\<lambda>p path. res),
      float_add = (\<lambda>a b. binary64 (a + b)), float_sub = (\<lambda>a b. binary64 (a - b))\<rparr>"

definition engine_args :: "string option \<Rightarrow> diar_args" where
  "engine_args tok = \<lparr>audio_path = ''talk.wav'', token = tok, simple = False\<rparr>"

text \<open>An engine result with two segments of two words each; every word also carries a
  \<open>probability\<close>, every segment an \<open>id\<close>.\<close>

definition two_by_two :: engine_result where
  "two_by_two =
     \<lparr>res_items = [(''text'', PyStr '' Good day. See you.''), (''language'', PyStr ''en'')],
      res_segments = Some
        [\<lparr>seg_items = [(''id'', PyInt 0), (''start'', PyFloat 0), (''end'', PyFloat (6 / 5)),
                       (''text'', PyStr '' Good day.'')],
          seg_words = Some
            [[(''word'', PyStr '' Good''), (''start'', PyFloat 0), (''end'', PyFloat (1 / 2)),
              (''probability'', PyFloat (9 / 10))],
             [(''word'', PyStr '' day.''), (''start'', PyFloat (1 / 2)), (''end'', PyFloat (6 / 5)),
              (''probability'', PyFloat (4 / 5))]]\<rparr>,
         \<lparr>seg_items = [(''id'', PyInt 1), (''start'', PyFloat (3 / 2)), (''end'', PyFloat (5 / 2)),
                       (''text'', PyStr '' See you.'')],
          seg_words = Some
            [[(''word'', PyStr '' See''), (''start'', PyFloat (3 / 2)), (''end'', PyFloat 2),
              (''probability'', PyFloat (7 / 10))],
             [(''word'', PyStr '' you.''), (''start'', PyFloat 2), (''end'', PyFloat (5 / 2)),
              (''probability'', PyFloat (3 / 5))]]\<rparr>]\<rparr>"

text \<open>An engine result without \<open>language\<close> and without \<open>segments\<close>.\<close>

definition untagged_result :: engine_result where
  "untagged_result = \<lparr>res_items = [(''text'', PyStr '' Hm.'')], res_segments = None\<rparr>"

text \<open>A machine with whisper installed, where \<open>talk.wav\<close> is the only file and paths are
  written in normal form already; what loading the model and transcribing give is left
  open.\<close>

definition whisper_world ::
  "(py_exception + unit) \<Rightarrow> (py_exception + engine_result) \<Rightarrow> unit whisper_world" where
  "whisper_world loaded res =
     \<lparr>whisper_importable = True, path_exists = (\<lambda>p. Inr (p = ''talk.wav'')),
      path_str = (\<lambda>p. p),
      load_model = (\<lambda>n. loaded), transcribe = (\<lambda>m p opts. res)\<rparr>"

definition whisper_args_for :: "string \<Rightarrow> string option \<Rightarrow> whisper_args" where
  "whisper_args_for p l = \<lparr>w_audio_path = p, w_model = Small, w_language = l\<rparr>"


section \<open>Properties of the diarization adapter\<close>

subsection \<open>Credential resolution and the paths of main\<close>

lemma truthy_simps [simp]:
  "truthy None = False" "truthy (Some s) = (s \<noteq> [])"
  by (simp_all add: truthy_def)

lemma resolve_token_cases:
  "resolve_token a env =
     (if truthy a then a
      else if truthy (env ''HUGGINGFACE_TOKEN'') then env ''HUGGINGFACE_TOKEN''
      else env ''HF_TOKEN'')"
  by (simp add: resolve_token_def py_or_def)

lemma pyannote_no_token:
  assumes "pyannote_importable w" and "\<not> truthy (resolve_token a (environ w))"
  shows "pyannote_diarization w p a =
           ([ImportPyannote],
            Inr (DiarFailure
              ''HuggingFace token required. Set HUGGINGFACE_TOKEN environment variable.''))"
  using assms by (simp add: pyannote_diarization_def truthy_def split: option.splits)

lemma pyannote_with_token:
  assumes "pyannote_importable w" and "resolve_token a (environ w) = Some tok" and "tok \<noteq> []"
  shows "pyannote_diarization w p a =
           (case run_engine w tok p of
              (calls, Inl e) \<Rightarrow> (ImportPyannote # calls, except_Exception DiarFailure e)
            | (calls, Inr tracks) \<Rightarrow>
                (ImportPyannote # calls, Inr (build_result (process_tracks w tracks))))"
  using assms by (simp add: pyannote_diarization_def)

lemma run_engine_first_call:
  "\<exists>rest. fst (run_engine w tok p) = FromPretrained ''pyannote/speaker-diarization-3.1'' tok # rest"
  by (simp add: run_engine_def Let_def split: sum.splits)

lemma finish_calls: "fst (finish r) = fst r"
  by (cases r) (simp add: finish_def split: sum.splits)

lemma diarize_main_engine_path:
  assumes "os_path_exists w (audio_path args)" and "\<not> simple args"
  shows "diarize_main w args = finish (pyannote_diarization w (audio_path args) (token args))"
  using assms by (simp add: diarize_main_def)

text \<open>Claim C7: for an audio file that exists, a run with \<open>--simple\<close> prints exactly the
  fallback document (success, method \<open>fallback\<close>, one speaker, no segments, the single
  speaker entry \<open>Speaker 1\<close> with total duration 0) and exits with code 0, whatever the
  world holds: the engine is not called and the file is not read.\<close>

theorem simple_flag_fallback:
  assumes "os_path_exists w (audio_path args)" and "simple args"
  shows "diarize_main w args =
           ([], Exited (DiarSuccess ''fallback'' 1 []
                  [\<lparr>speaker_id = 1, name = ''Speaker 1'', total_duration = 0\<rparr>]) 0)"
  using assms by (simp add: diarize_main_def finish_def simple_diarization_def)

theorem simple_flag_fallback_witness:
  "os_path_exists (engine_world Map.empty (Inr three_turns)) ''talk.wav''
   \<and> simple \<lparr>audio_path = ''talk.wav'', token = None, simple = True\<rparr>
   \<and> diarize_main (engine_world Map.empty (Inr three_turns))
        \<lparr>audio_path = ''talk.wav'', token = None, simple = True\<rparr> =
      ([], Exited (DiarSuccess ''fallback'' 1 []
             [\<lparr>speaker_id = 1, name = ''Speaker 1'', total_duration = 0\<rparr>]) 0)"
  using simple_flag_fallback
    [of "engine_world Map.empty (Inr three_turns)"
        "\<lparr>audio_path = ''talk.wav'', token = None, simple = True\<rparr>"]
  by (simp add: engine_world_def)

text \<open>Claim C8: without \<open>--simple\<close>, on a file that exists, when the engine's library
  cannot be imported, the run prints the failure document whose error tells how to install
  it (it contains \<open>pip install\<close>) and exits with code 1; the token argument and the
  environment play no part, since the import is tried before the credential is looked
  up.\<close>

theorem missing_engine_import:
  assumes "os_path_exists w (audio_path args)" and "\<not> simple args"
    and "\<not> pyannote_importable w"
  shows "diarize_main (w\<lparr>environ := env\<rparr>) (args\<lparr>token := tok\<rparr>) =
           ([ImportPyannote],
            Exited (DiarFailure
              ''pyannote.audio not installed. Run: pip install pyannote.audio torch'') 1)
         \<and> sublist ''pip install''
              ''pyannote.audio not installed. Run: pip install pyannote.audio torch''"
proof -
  have "''pyannote.audio not installed. Run: pip install pyannote.audio torch'' =
        ''pyannote.audio not installed. Run: '' @ ''pip install'' @ '' pyannote.audio torch''"
    by simp
  then have "sublist ''pip install''
      ''pyannote.audio not installed. Run: pip install pyannote.audio torch''"
    by (simp only: sublist_appendI)
  with assms show ?thesis
    by (simp add: diarize_main_def finish_def pyannote_diarization_def)
qed

theorem missing_engine_import_witness:
  "os_path_exists ((engine_world Map.empty (Inr three_turns))\<lparr>pyannote_importable := False\<rparr>)
      (audio_path (engine_args None))
   \<and> \<not> simple (engine_args None)
   \<and> \<not> pyannote_importable ((engine_world Map.empty (Inr three_turns))\<lparr>pyannote_importable := False\<rparr>)
   \<and> diarize_main
        ((engine_world Map.empty (Inr three_turns))
           \<lparr>pyannote_importable := False, environ := [''HF_TOKEN'' \<mapsto> ''hf_secondary'']\<rparr>)
        (engine_args (Some ''hf_cli'')) =
      ([ImportPyannote],
       Exited (DiarFailure
         ''pyannote.audio not installed. Run: pip install pyannote.audio torch'') 1)
   \<and> diarize_main
        ((engine_world Map.empty (Inr three_turns))\<lparr>pyannote_importable := False\<rparr>)
        (engine_args None) =
      ([ImportPyannote],
       Exited (DiarFailure
         ''pyannote.audio not installed. Run: pip install pyannote.audio torch'') 1)"
  using
    missing_engine_import
      [of "(engine_world Map.empty (Inr three_turns))\<lparr>pyannote_importable := False\<rparr>"
          "engine_args None" "[''HF_TOKEN'' \<mapsto> ''hf_secondary'']" "Some ''hf_cli''"]
    missing_engine_import
      [of "(engine_world Map.empty (Inr three_turns))\<lparr>pyannote_importable := False\<rparr>"
          "engine_args None" "Map.empty" "None"]
  by (simp add: engine_world_def engine_args_def)

text \<open>Claim C5: on the engine path (the file exists, no \<open>--simple\<close>, the library imports)
  the credential is the \<open>--token\<close> argument when that is a non-empty string, else the
  value of \<open>HUGGINGFACE_TOKEN\<close> when non-empty, else the value of \<open>HF_TOKEN\<close>; the
  credential so resolved is the one handed to the engine; and when none of the three
  sources holds a non-empty string the run prints the credential-required failure and
  exits with code 1, the engine not being called.\<close>

theorem credential_priority:
  assumes "os_path_exists w (audio_path args)" and "\<not> simple args" and "pyannote_importable w"
  shows "(truthy (token args) \<longrightarrow> resolve_token (token args) (environ w) = token args)
       \<and> (\<not> truthy (token args) \<and> truthy (environ w ''HUGGINGFACE_TOKEN'') \<longrightarrow>
            resolve_token (token args) (environ w) = environ w ''HUGGINGFACE_TOKEN'')
       \<and> (\<not> truthy (token args) \<and> \<not> truthy (environ w ''HUGGINGFACE_TOKEN'')
            \<and> truthy (environ w ''HF_TOKEN'') \<longrightarrow>
            resolve_token (token args) (environ w) = environ w ''HF_TOKEN'')
       \<and> (\<forall>tok. resolve_token (token args) (environ w) = Some tok \<and> tok \<noteq> [] \<longrightarrow>
            take 2 (fst (diarize_main w args)) =
              [ImportPyannote, FromPretrained ''pyannote/speaker-diarization-3.1'' tok])
       \<and> (\<not> truthy (token args) \<and> \<not> truthy (environ w ''HUGGINGFACE_TOKEN'')
            \<and> \<not> truthy (environ w ''HF_TOKEN'') \<longrightarrow>
            diarize_main w args =
              ([ImportPyannote],
               Exited (DiarFailure
                 ''HuggingFace token required. Set HUGGINGFACE_TOKEN environment variable.'') 1))"
proof -
  have main: "diarize_main w args = finish (pyannote_diarization w (audio_path args) (token args))"
    using assms(1,2) by (rule diarize_main_engine_path)
  have used: "take 2 (fst (diarize_main w args)) =
                [ImportPyannote, FromPretrained ''pyannote/speaker-diarization-3.1'' tok]"
    if "resolve_token (token args) (environ w) = Some tok" and "tok \<noteq> []" for tok
  proof -
    obtain rest where "fst (run_engine w tok (audio_path args)) =
        FromPretrained ''pyannote/speaker-diarization-3.1'' tok # rest"
      using run_engine_first_call by blast
    then show ?thesis
      unfolding main finish_calls pyannote_with_token [OF assms(3) that]
      by (cases "run_engine w tok (audio_path args)") (auto split: sum.splits)
  qed
  have none: "diarize_main w args =
      ([ImportPyannote],
       Exited (DiarFailure
         ''HuggingFace token required. Set HUGGINGFACE_TOKEN environment variable.'') 1)"
    if "\<not> truthy (token args)" and "\<not> truthy (environ w ''HUGGINGFACE_TOKEN'')"
      and "\<not> truthy (environ w ''HF_TOKEN'')"
  proof -
    from that have "\<not> truthy (resolve_token (token args) (environ w))"
      by (simp add: resolve_token_cases)
    then show ?thesis
      unfolding main pyannote_no_token [OF assms(3) \<open>\<not> truthy (resolve_token (token args) (environ w))\<close>]
      by (simp add: finish_def)
  qed
  show ?thesis
    using used none by (simp add: resolve_token_cases)
qed

theorem credential_priority_witness:
  "os_path_exists (engine_world [''HUGGINGFACE_TOKEN'' \<mapsto> ''hf_primary'', ''HF_TOKEN'' \<mapsto> ''hf_secondary''] (Inr three_turns))
     (audio_path (engine_args (Some ''hf_cli'')))
   \<and> \<not> simple (engine_args (Some ''hf_cli''))
   \<and> pyannote_importable (engine_world [''HUGGINGFACE_TOKEN'' \<mapsto> ''hf_primary'', ''HF_TOKEN'' \<mapsto> ''hf_secondary''] (Inr three_turns))
   \<and> take 2 (fst (diarize_main
        (engine_world [''HUGGINGFACE_TOKEN'' \<mapsto> ''hf_primary'', ''HF_TOKEN'' \<mapsto> ''hf_secondary''] (Inr three_turns))
        (engine_args (Some ''hf_cli'')))) =
       [ImportPyannote, FromPretrained ''pyannote/speaker-diarization-3.1'' ''hf_cli'']
   \<and> take 2 (fst (diarize_main
        (engine_world [''HUGGINGFACE_TOKEN'' \<mapsto> ''hf_primary'', ''HF_TOKEN'' \<mapsto> ''hf_secondary''] (Inr three_turns))
        (engine_args None))) =
       [ImportPyannote, FromPretrained ''pyannote/speaker-diarization-3.1'' ''hf_primary'']
   \<and> take 2 (fst (diarize_main
        (engine_world [''HF_TOKEN'' \<mapsto> ''hf_secondary''] (Inr three_turns))
        (engine_args None))) =
       [ImportPyannote, FromPretrained ''pyannote/speaker-diarization-3.1'' ''hf_secondary'']
   \<and> diarize_main (engine_world Map.empty (Inr three_turns)) (engine_args None) =
       ([ImportPyannote],
        Exited (DiarFailure
          ''HuggingFace token required. Set HUGGINGFACE_TOKEN environment variable.'') 1)"
  using
    credential_priority [of "engine_world [''HUGGINGFACE_TOKEN'' \<mapsto> ''hf_primary'', ''HF_TOKEN'' \<mapsto> ''hf_secondary''] (Inr three_turns)"
      "engine_args (Some ''hf_cli'')"]
    credential_priority [of "engine_world [''HUGGINGFACE_TOKEN'' \<mapsto> ''hf_primary'', ''HF_TOKEN'' \<mapsto> ''hf_secondary''] (Inr three_turns)"
      "engine_args None"]
    credential_priority [of "engine_world [''HF_TOKEN'' \<mapsto> ''hf_secondary''] (Inr three_turns)"
      "engine_args None"]
    credential_priority [of "engine_world Map.empty (Inr three_turns)" "engine_args None"]
  by (simp add: engine_world_def engine_args_def resolve_token_cases)

text \<open>Claim C10: an empty \<open>--token\<close> argument behaves as an absent one. Resolution falls
  through to the environment: a non-empty \<open>HUGGINGFACE_TOKEN\<close> is the credential, and
  with that variable unset or empty a non-empty \<open>HF_TOKEN\<close> is; on the engine path the
  credential so found is the one handed to the engine; the whole run equals the run without
  the argument; and when both variables are empty or unset as well, the run ends in the
  credential-required failure.\<close>

theorem empty_token_like_absent:
  "resolve_token (Some []) env = resolve_token None env
   \<and> (\<forall>t. env ''HUGGINGFACE_TOKEN'' = Some t \<and> t \<noteq> [] \<longrightarrow>
          resolve_token (Some []) env = Some t)
   \<and> (\<forall>t. (env ''HUGGINGFACE_TOKEN'' = None \<or> env ''HUGGINGFACE_TOKEN'' = Some [])
          \<and> env ''HF_TOKEN'' = Some t \<and> t \<noteq> [] \<longrightarrow>
          resolve_token (Some []) env = Some t)
   \<and> diarize_main w (args\<lparr>token := Some []\<rparr>) = diarize_main w (args\<lparr>token := None\<rparr>)
   \<and> (\<forall>t. os_path_exists w (audio_path args) \<and> \<not> simple args \<and> pyannote_importable w
          \<and> environ w ''HUGGINGFACE_TOKEN'' = Some t \<and> t \<noteq> [] \<longrightarrow>
          take 2 (fst (diarize_main w (args\<lparr>token := Some []\<rparr>))) =
            [ImportPyannote, FromPretrained ''pyannote/speaker-diarization-3.1'' t])
   \<and> (\<forall>t. os_path_exists w (audio_path args) \<and> \<not> simple args \<and> pyannote_importable w
          \<and> (environ w ''HUGGINGFACE_TOKEN'' = None \<or> environ w ''HUGGINGFACE_TOKEN'' = Some [])
          \<and> environ w ''HF_TOKEN'' = Some t \<and> t \<noteq> [] \<longrightarrow>
          take 2 (fst (diarize_main w (args\<lparr>token := Some []\<rparr>))) =
            [ImportPyannote, FromPretrained ''pyannote/speaker-diarization-3.1'' t])
   \<and> (os_path_exists w (audio_path args) \<and> \<not> simple args \<and> pyannote_importable w
        \<and> (environ w ''HUGGINGFACE_TOKEN'' = None \<or> environ w ''HUGGINGFACE_TOKEN'' = Some [])
        \<and> (environ w ''HF_TOKEN'' = None \<or> environ w ''HF_TOKEN'' = Some []) \<longrightarrow>
        diarize_main w (args\<lparr>token := Some []\<rparr>) =
          ([ImportPyannote],
           Exited (DiarFailure
             ''HuggingFace token required. Set HUGGINGFACE_TOKEN environment variable.'') 1))"
proof -
  let ?a = "args\<lparr>token := Some []\<rparr>"
  have r: "resolve_token (Some []) e = resolve_token None e" for e
    by (simp add: resolve_token_cases)
  have p1: "resolve_token (Some []) e = Some t" if "e ''HUGGINGFACE_TOKEN'' = Some t" "t \<noteq> []"
    for e t
    using that by (simp add: resolve_token_cases)
  have p2: "resolve_token (Some []) e = Some t"
    if "e ''HUGGINGFACE_TOKEN'' = None \<or> e ''HUGGINGFACE_TOKEN'' = Some []"
      "e ''HF_TOKEN'' = Some t" "t \<noteq> []" for e t
    using that by (auto simp: resolve_token_cases)
  have "pyannote_diarization w p (Some []) = pyannote_diarization w p None" for p
    by (simp only: pyannote_diarization_def r)
  then have m: "diarize_main w ?a = diarize_main w (args\<lparr>token := None\<rparr>)"
    by (simp add: diarize_main_def)
  have used: "take 2 (fst (diarize_main w ?a)) =
                [ImportPyannote, FromPretrained ''pyannote/speaker-diarization-3.1'' t]"
    if path: "os_path_exists w (audio_path args)" "\<not> simple args" "pyannote_importable w"
      and res: "resolve_token (Some []) (environ w) = Some t" and ne: "t \<noteq> []" for t
  proof -
    have main: "diarize_main w ?a = finish (pyannote_diarization w (audio_path args) (Some []))"
      using path(1,2) by (simp add: diarize_main_def)
    obtain rest where "fst (run_engine w t (audio_path args)) =
        FromPretrained ''pyannote/speaker-diarization-3.1'' t # rest"
      using run_engine_first_call by blast
    then show ?thesis
      unfolding main finish_calls pyannote_with_token [OF path(3) res ne]
      by (cases "run_engine w t (audio_path args)") (auto split: sum.splits)
  qed
  have none: "diarize_main w ?a =
          ([ImportPyannote],
           Exited (DiarFailure
             ''HuggingFace token required. Set HUGGINGFACE_TOKEN environment variable.'') 1)"
    if "os_path_exists w (audio_path args)" "\<not> simple args" "pyannote_importable w"
       "environ w ''HUGGINGFACE_TOKEN'' = None \<or> environ w ''HUGGINGFACE_TOKEN'' = Some []"
       "environ w ''HF_TOKEN'' = None \<or> environ w ''HF_TOKEN'' = Some []"
    using that
    by (auto simp: diarize_main_def finish_def pyannote_diarization_def resolve_token_cases)
  show ?thesis
    using r [of env] p1 [of env] p2 [of env] m used p1 [of "environ w"] p2 [of "environ w"] none
    by blast
qed

theorem empty_token_like_absent_witness:
  "[''HUGGINGFACE_TOKEN'' \<mapsto> ''hf_primary''] ''HUGGINGFACE_TOKEN'' = Some ''hf_primary''
   \<and> resolve_token (Some []) [''HUGGINGFACE_TOKEN'' \<mapsto> ''hf_primary''] = Some ''hf_primary''
   \<and> os_path_exists (engine_world [''HUGGINGFACE_TOKEN'' \<mapsto> ''hf_primary''] (Inr three_turns))
        (audio_path (engine_args None))
   \<and> \<not> simple (engine_args None)
   \<and> pyannote_importable (engine_world [''HUGGINGFACE_TOKEN'' \<mapsto> ''hf_primary''] (Inr three_turns))
   \<and> take 2 (fst (diarize_main
        (engine_world [''HUGGINGFACE_TOKEN'' \<mapsto> ''hf_primary''] (Inr three_turns))
        (engine_args (Some [])))) =
       [ImportPyannote, FromPretrained ''pyannote/speaker-diarization-3.1'' ''hf_primary'']
   \<and> environ (engine_world [''HUGGINGFACE_TOKEN'' \<mapsto> [], ''HF_TOKEN'' \<mapsto> ''hf_secondary'']
        (Inr three_turns)) ''HUGGINGFACE_TOKEN'' = Some []
   \<and> environ (engine_world [''HUGGINGFACE_TOKEN'' \<mapsto> [], ''HF_TOKEN'' \<mapsto> ''hf_secondary'']
        (Inr three_turns)) ''HF_TOKEN'' = Some ''hf_secondary''
   \<and> take 2 (fst (diarize_main
        (engine_world [''HUGGINGFACE_TOKEN'' \<mapsto> [], ''HF_TOKEN'' \<mapsto> ''hf_secondary'']
           (Inr three_turns))
        (engine_args (Some [])))) =
       [ImportPyannote, FromPretrained ''pyannote/speaker-diarization-3.1'' ''hf_secondary'']
   \<and> environ (engine_world [''HUGGINGFACE_TOKEN'' \<mapsto> [], ''HF_TOKEN'' \<mapsto> []] (Inr three_turns))
        ''HUGGINGFACE_TOKEN'' = Some []
   \<and> environ (engine_world [''HUGGINGFACE_TOKEN'' \<mapsto> [], ''HF_TOKEN'' \<mapsto> []] (Inr three_turns))
        ''HF_TOKEN'' = Some []
   \<and> diarize_main (engine_world [''HUGGINGFACE_TOKEN'' \<mapsto> [], ''HF_TOKEN'' \<mapsto> []] (Inr three_turns))
        (engine_args (Some [])) =
       ([ImportPyannote],
        Exited (DiarFailure
          ''HuggingFace token required. Set HUGGINGFACE_TOKEN environment variable.'') 1)"
proof -
  note t = empty_token_like_absent
  have a: "resolve_token (Some []) [''HUGGINGFACE_TOKEN'' \<mapsto> ''hf_primary''] = Some ''hf_primary''"
    using t [of "[''HUGGINGFACE_TOKEN'' \<mapsto> ''hf_primary'']"
               "engine_world Map.empty (Inr three_turns)" "engine_args None",
             THEN conjunct2, THEN conjunct1]
    by simp
  have b: "take 2 (fst (diarize_main
        (engine_world [''HUGGINGFACE_TOKEN'' \<mapsto> ''hf_primary''] (Inr three_turns))
        (engine_args (Some [])))) =
       [ImportPyannote, FromPretrained ''pyannote/speaker-diarization-3.1'' ''hf_primary'']"
    using t [of Map.empty "engine_world [''HUGGINGFACE_TOKEN'' \<mapsto> ''hf_primary''] (Inr three_turns)"
               "engine_args None",
             THEN conjunct2, THEN conjunct2, THEN conjunct2, THEN conjunct2, THEN conjunct1]
    by (simp add: engine_world_def engine_args_def)
  have c: "take 2 (fst (diarize_main
        (engine_world [''HUGGINGFACE_TOKEN'' \<mapsto> [], ''HF_TOKEN'' \<mapsto> ''hf_secondary'']
           (Inr three_turns))
        (engine_args (Some [])))) =
       [ImportPyannote, FromPretrained ''pyannote/speaker-diarization-3.1'' ''hf_secondary'']"
    using t [of Map.empty
               "engine_world [''HUGGINGFACE_TOKEN'' \<mapsto> [], ''HF_TOKEN'' \<mapsto> ''hf_secondary'']
                  (Inr three_turns)"
               "engine_args None",
             THEN conjunct2, THEN conjunct2, THEN conjunct2, THEN conjunct2, THEN conjunct2, THEN conjunct1]
    by (simp add: engine_world_def engine_args_def)
  have d: "diarize_main (engine_world [''HUGGINGFACE_TOKEN'' \<mapsto> [], ''HF_TOKEN'' \<mapsto> []] (Inr three_turns))
        (engine_args (Some [])) =
       ([ImportPyannote],
        Exited (DiarFailure
          ''HuggingFace token required. Set HUGGINGFACE_TOKEN environment variable.'') 1)"
    using t [of Map.empty
               "engine_world [''HUGGINGFACE_TOKEN'' \<mapsto> [], ''HF_TOKEN'' \<mapsto> []] (Inr three_turns)"
               "engine_args None",
             THEN conjunct2, THEN conjunct2, THEN conjunct2, THEN conjunct2, THEN conjunct2, THEN conjunct2]
    by (simp add: engine_world_def engine_args_def)
  from a b c d show ?thesis
    by (simp add: engine_world_def engine_args_def)
qed

subsection \<open>The loop over the tracks\<close>

lemma fid_append_old:
  "l \<in> set ls \<Longrightarrow> first_appearance_id (ls @ ms) l = first_appearance_id ls l"
  by (simp add: first_appearance_id_def takeWhile_append1)

lemma fid_append_new:
  "l \<notin> set ls \<Longrightarrow> first_appearance_id (ls @ [l]) l = Suc (card (set ls))"
proof -
  assume "l \<notin> set ls"
  then have "takeWhile (\<lambda>x. x \<noteq> l) ls = ls"
    by (simp add: takeWhile_eq_all_conv) blast
  moreover from \<open>l \<notin> set ls\<close> have "takeWhile (\<lambda>x. x \<noteq> l) (ls @ [l]) = takeWhile (\<lambda>x. x \<noteq> l) ls"
    by (induction ls) auto
  ultimately show ?thesis by (simp add: first_appearance_id_def)
qed

lemma fid_bounds:
  assumes "l \<in> set ls"
  shows "first_appearance_id ls l \<le> card (set ls)"
proof -
  have "set (takeWhile (\<lambda>x. x \<noteq> l) ls) \<subseteq> set ls - {l}"
    by (auto dest: set_takeWhileD)
  then have "card (set (takeWhile (\<lambda>x. x \<noteq> l) ls)) \<le> card (set ls - {l})"
    by (intro card_mono) auto
  also from assms have "\<dots> < card (set ls)"
    by (intro psubset_card_mono) auto
  finally show ?thesis by (simp add: first_appearance_id_def)
qed

lemma fid_pos: "0 < first_appearance_id ls l"
  by (simp add: first_appearance_id_def)

lemma update_fresh:
  "k \<notin> fst ` set al \<Longrightarrow> AList.update k v al = al @ [(k, v)]"
  by (induction al) auto

lemma update_tabulated:
  "k \<in> set ks \<Longrightarrow> distinct ks \<Longrightarrow>
   AList.update k v (map (\<lambda>i. (i, f i)) ks) = map (\<lambda>i. (i, if i = k then v else f i)) ks"
  by (induction ks) auto

lemma map_of_tabulated:
  "map_of (map (\<lambda>i. (i, f i)) ks) k = (if k \<in> set ks then Some (f k) else None)"
  by (induction ks) auto

lemma sorted_by_key:
  fixes xs :: "(nat \<times> rat) list"
  shows "sorted_wrt (<) (map fst xs) \<Longrightarrow> sorted xs"
  by (induction xs) (auto simp: less_eq_prod_def)

lemma sort_tabulated:
  fixes f :: "nat \<Rightarrow> rat"
  shows "sort (map (\<lambda>i. (i, f i)) [a..<b]) = map (\<lambda>i. (i, f i)) [a..<b]"
proof -
  have "map fst (map (\<lambda>i. (i, f i)) [a..<b]) = [a..<b]"
    by (simp add: o_def)
  then have "sorted_wrt (<) (map fst (map (\<lambda>i. (i, f i)) [a..<b]))"
    by (simp only: sorted_wrt_upt)
  then show ?thesis by (intro sorted_sort_id sorted_by_key)
qed


lemma speaking_time_snoc:
  "speaking_time w (ts @ [t]) i =
     (if first_appearance_id (map speaker_label ts @ [speaker_label t]) (speaker_label t) = i
      then float_add w (speaking_time w ts i) (float_sub w (turn_end t) (turn_start t))
      else speaking_time w ts i)"
proof -
  have "filter (\<lambda>u. first_appearance_id (map speaker_label ts @ [speaker_label t]) (speaker_label u) = i) ts
        = filter (\<lambda>u. first_appearance_id (map speaker_label ts) (speaker_label u) = i) ts"
    by (rule filter_cong) (simp_all add: fid_append_old)
  then show ?thesis by (simp add: speaking_time_def)
qed

lemma speaking_time_beyond:
  assumes "card (set (map speaker_label ts)) < i"
  shows "speaking_time w ts i = 0"
proof -
  have "filter (\<lambda>u. first_appearance_id (map speaker_label ts) (speaker_label u) = i) ts = []"
  proof (simp only: filter_empty_conv, intro ballI notI)
    fix u assume "u \<in> set ts" and eq: "first_appearance_id (map speaker_label ts) (speaker_label u) = i"
    then have "speaker_label u \<in> set (map speaker_label ts)" by simp
    then have "first_appearance_id (map speaker_label ts) (speaker_label u)
                 \<le> card (set (map speaker_label ts))"
      by (rule fid_bounds)
    with eq assms show False by simp
  qed
  then show ?thesis by (simp add: speaking_time_def)
qed

lemma loop_invariant_initial: "loop_invariant w [] initial_state"
  by (simp add: loop_invariant_def initial_state_def)

lemma loop_invariant_step:
  assumes inv: "loop_invariant w ts st"
  shows "loop_invariant w (ts @ [t]) (process_track w st t)"
proof -
  let ?ls = "map speaker_label ts" and ?l = "speaker_label t"
  let ?n = "card (set ?ls)"
  let ?d = "float_sub w (turn_end t) (turn_start t)"
  from inv have m: "\<And>l. map_of (speaker_mapping st) l =
                      (if l \<in> set ?ls then Some (first_appearance_id ?ls l) else None)"
    and c: "speaker_counter st = Suc ?n"
    and s: "seg_list st = map (\<lambda>t. make_segment (first_appearance_id ?ls (speaker_label t)) t) ts"
    and tm: "speaker_times st = map (\<lambda>i. (i, speaking_time w ts i)) [1..<Suc ?n]"
    by (simp_all add: loop_invariant_def Let_def)
  have segs_old: "map (\<lambda>u. make_segment (first_appearance_id (?ls @ [?l]) (speaker_label u)) u) ts
                  = map (\<lambda>u. make_segment (first_appearance_id ?ls (speaker_label u)) u) ts"
    by (rule map_cong) (simp_all add: fid_append_old)
  show ?thesis
  proof (cases "?l \<in> set ?ls")
    case True
    let ?sid = "first_appearance_id ?ls ?l"
    from True have same: "first_appearance_id (?ls @ [?l]) ?l = ?sid"
      by (rule fid_append_old)
    from True have sid_in: "?sid \<in> set [1..<Suc ?n]"
      using fid_bounds [OF True] fid_pos [of ?ls ?l] by auto
    have ms: "map_speaker (speaker_mapping st) (speaker_counter st) ?l
                = (speaker_mapping st, Suc ?n, ?sid)"
      using True by (simp add: map_speaker_def m c)
    have td: "track_duration w (speaker_times st) ?sid ?d
                = map (\<lambda>i. (i, speaking_time w (ts @ [t]) i)) [1..<Suc ?n]"
    proof -
      have "map_of (speaker_times st) ?sid = Some (speaking_time w ts ?sid)"
        using sid_in by (simp only: tm map_of_tabulated if_True)
      then have "track_duration w (speaker_times st) ?sid ?d
                   = AList.update ?sid (float_add w (speaking_time w ts ?sid) ?d) (speaker_times st)"
        by (simp add: track_duration_def)
      also have "\<dots> = map (\<lambda>i. (i, if i = ?sid then float_add w (speaking_time w ts ?sid) ?d
                                       else speaking_time w ts i))
                        [1..<Suc ?n]"
        unfolding tm by (rule update_tabulated [OF sid_in]) simp
      also have "\<dots> = map (\<lambda>i. (i, speaking_time w (ts @ [t]) i)) [1..<Suc ?n]"
        by (rule map_cong) (auto simp: speaking_time_snoc same)
      finally show ?thesis .
    qed
    have "\<And>l. map_of (speaker_mapping st) l =
            (if l \<in> set (?ls @ [?l]) then Some (first_appearance_id (?ls @ [?l]) l) else None)"
      using True by (auto simp: m fid_append_old)
    moreover have "seg_list st @ [make_segment ?sid t]
        = map (\<lambda>u. make_segment (first_appearance_id (?ls @ [?l]) (speaker_label u)) u) (ts @ [t])"
      by (simp add: s segs_old same)
    ultimately show ?thesis
      unfolding loop_invariant_def Let_def process_track_def ms
      using True td by (simp add: insert_absorb del: upt_Suc)
  next
    case False
    let ?sid = "Suc ?n"
    from False have new: "first_appearance_id (?ls @ [?l]) ?l = ?sid"
      by (rule fid_append_new)
    have ms: "map_speaker (speaker_mapping st) (speaker_counter st) ?l
                = (AList.update ?l ?sid (speaker_mapping st), Suc ?sid, ?sid)"
      using False by (simp add: map_speaker_def m c)
    have td: "track_duration w (speaker_times st) ?sid ?d
                = map (\<lambda>i. (i, speaking_time w (ts @ [t]) i)) [1..<Suc ?sid]"
    proof -
      have none: "map_of (speaker_times st) ?sid = None"
        by (simp add: tm map_of_tabulated)
      have fresh: "?sid \<notin> fst ` set (speaker_times st)"
        by (auto simp: tm)
      have "track_duration w (speaker_times st) ?sid ?d
              = AList.update ?sid (float_add w 0 ?d) (speaker_times st)"
        using none by (simp only: track_duration_def option.case)
      also have "\<dots> = speaker_times st @ [(?sid, float_add w 0 ?d)]"
        using fresh by (rule update_fresh)
      finally have "track_duration w (speaker_times st) ?sid ?d
                      = speaker_times st @ [(?sid, float_add w 0 ?d)]" .
      moreover have "map (\<lambda>i. (i, speaking_time w (ts @ [t]) i)) [1..<Suc ?n]
                     = map (\<lambda>i. (i, speaking_time w ts i)) [1..<Suc ?n]"
        by (rule map_cong) (auto simp: speaking_time_snoc new)
      moreover have "speaking_time w (ts @ [t]) ?sid = float_add w 0 ?d"
        by (simp add: speaking_time_snoc new speaking_time_beyond)
      ultimately show ?thesis by (simp add: tm)
    qed
    have "\<And>l. map_of (AList.update ?l ?sid (speaker_mapping st)) l =
            (if l \<in> set (?ls @ [?l]) then Some (first_appearance_id (?ls @ [?l]) l) else None)"
      using False by (auto simp: update_conv' m fid_append_old new)
    moreover have "seg_list st @ [make_segment ?sid t]
        = map (\<lambda>u. make_segment (first_appearance_id (?ls @ [?l]) (speaker_label u)) u) (ts @ [t])"
      by (simp add: s segs_old new)
    ultimately show ?thesis
      unfolding loop_invariant_def Let_def process_track_def ms
      using False td by (simp del: upt_Suc)
  qed
qed

lemma loop_invariant_process_tracks: "loop_invariant w ts (process_tracks w ts)"
  unfolding process_tracks_def
  by (induction ts rule: rev_induct) (simp_all add: loop_invariant_initial loop_invariant_step)

lemma fid_image: "first_appearance_id ls ` set ls = {1..card (set ls)}"
proof (induction ls rule: rev_induct)
  case Nil
  show ?case by simp
next
  case (snoc x xs)
  have old: "first_appearance_id (xs @ [x]) ` set xs = first_appearance_id xs ` set xs"
    by (rule image_cong) (simp_all add: fid_append_old)
  show ?case
  proof (cases "x \<in> set xs")
    case True
    then have "set (xs @ [x]) = set xs" by auto
    moreover from True have "first_appearance_id (xs @ [x]) x \<in> first_appearance_id (xs @ [x]) ` set xs"
      by (rule imageI)
    ultimately show ?thesis using snoc.IH old by (simp add: insert_absorb)
  next
    case False
    then have "first_appearance_id (xs @ [x]) x = Suc (card (set xs))"
      by (rule fid_append_new)
    moreover from False have "card (set (xs @ [x])) = Suc (card (set xs))" by simp
    ultimately show ?thesis using snoc.IH old by (auto simp: atLeastAtMostSuc_conv)
  qed
qed

lemma build_speakers_tabulated:
  "build_speakers (map (\<lambda>i. (i, f i)) [a..<b]) =
     map (\<lambda>i. \<lparr>speaker_id = i, name = ''Speaker '' @ str_nat i,
                total_duration = py_round (f i) 2\<rparr>) [a..<b]"
  by (simp add: build_speakers_def sort_tabulated o_def)

lemma build_result_process_tracks:
  "build_result (process_tracks w ts) =
     DiarSuccess ''pyannote'' (card (set (map speaker_label ts)))
       (map (\<lambda>t. make_segment (first_appearance_id (map speaker_label ts) (speaker_label t)) t) ts)
       (map (\<lambda>i. \<lparr>speaker_id = i, name = ''Speaker '' @ str_nat i,
                  total_duration = py_round (speaking_time w ts i) 2\<rparr>)
            [1..<Suc (card (set (map speaker_label ts)))])"
proof -
  have inv: "loop_invariant w ts (process_tracks w ts)"
    by (rule loop_invariant_process_tracks)
  then have segs: "seg_list (process_tracks w ts) =
      map (\<lambda>t. make_segment (first_appearance_id (map speaker_label ts) (speaker_label t)) t) ts"
    and tms: "speaker_times (process_tracks w ts) =
      map (\<lambda>i. (i, speaking_time w ts i)) [1..<Suc (card (set (map speaker_label ts)))]"
    by (simp_all add: loop_invariant_def Let_def)
  show ?thesis
    unfolding build_result_def Let_def segs tms build_speakers_tabulated
    by (simp del: upt_Suc)
qed

lemma pyannote_engine_success:
  assumes "pyannote_importable w" and "resolve_token hf_token (environ w) = Some tok"
    and "tok \<noteq> []" and "snd (run_engine w tok path) = Inr tracks"
  shows "snd (pyannote_diarization w path hf_token) = Inr (build_result (process_tracks w tracks))"
  using assms(4)
  unfolding pyannote_with_token [OF assms(1,2,3)]
  by (cases "run_engine w tok path") auto

lemma turns_total_make_segment:
  "turns_total w ts (map (\<lambda>t. make_segment (f t) t) ts) i =
     foldl (float_add w) 0
       (map (\<lambda>t. float_sub w (turn_end t) (turn_start t)) (filter (\<lambda>t. f t = i) ts))"
proof -
  have "zip ts (map (\<lambda>t. make_segment (f t) t) ts) = map (\<lambda>t. (t, make_segment (f t) t)) ts"
    by (induction ts) simp_all
  then show ?thesis
    by (simp add: turns_total_def filter_map o_def make_segment_def)
qed

lemma fid_order:
  assumes "a \<in> set (takeWhile (\<lambda>x. x \<noteq> b) ls)"
  shows "first_appearance_id ls a < first_appearance_id ls b"
proof -
  let ?P = "takeWhile (\<lambda>x. x \<noteq> b) ls"
  have "ls = ?P @ dropWhile (\<lambda>x. x \<noteq> b) ls" by simp
  then have "takeWhile (\<lambda>x. x \<noteq> a) ls = takeWhile (\<lambda>x. x \<noteq> a) (?P @ dropWhile (\<lambda>x. x \<noteq> b) ls)"
    by simp
  also have "\<dots> = takeWhile (\<lambda>x. x \<noteq> a) ?P"
    using assms by (intro takeWhile_append1[where x = a]) simp_all
  finally have "set (takeWhile (\<lambda>x. x \<noteq> a) ls) \<subseteq> set ?P - {a}"
    by (auto dest: set_takeWhileD)
  then have "card (set (takeWhile (\<lambda>x. x \<noteq> a) ls)) \<le> card (set ?P - {a})"
    by (intro card_mono) auto
  also from assms have "\<dots> < card (set ?P)"
    by (intro psubset_card_mono) auto
  finally show ?thesis by (simp add: first_appearance_id_def)
qed

lemma round_half_even_near:
  "\<bar>y - of_int (round_half_even y)\<bar> \<le> 1 / 2
   \<and> (\<bar>y - of_int (round_half_even y)\<bar> = 1 / 2 \<longrightarrow> even (round_half_even y))"
proof -
  define f where "f = \<lfloor>y\<rfloor>"
  define d where "d = y - of_int f"
  have d0: "0 \<le> d" and d1: "d < 1"
    unfolding d_def f_def by linarith+
  have y: "y = of_int f + d"
    by (simp add: d_def)
  have rhe: "round_half_even y =
      (if d < 1 / 2 then f else if 1 / 2 < d then f + 1 else if even f then f else f + 1)"
    by (simp only: round_half_even_def Let_def f_def d_def)
  consider (low) "d < 1 / 2" | (high) "1 / 2 < d" | (tie) "d = 1 / 2"
    by linarith
  then show ?thesis
  proof cases
    case low
    then have r: "round_half_even y = f"
      by (simp add: rhe)
    have "\<bar>y - of_int f\<bar> = d"
      using d0 by (simp add: y)
    with low show ?thesis by (simp add: r)
  next
    case high
    then have r: "round_half_even y = f + 1"
      by (simp add: rhe)
    have "\<bar>y - of_int (f + 1)\<bar> = 1 - d"
      using d1 by (simp add: y)
    with high show ?thesis by (simp add: r)
  next
    case tie
    show ?thesis
    proof (cases "even f")
      case True
      then have r: "round_half_even y = f"
        using tie by (simp add: rhe)
      have "\<bar>y - of_int f\<bar> = d"
        using d0 by (simp add: y)
      with tie True show ?thesis by (simp add: r)
    next
      case False
      then have r: "round_half_even y = f + 1"
        using tie by (simp add: rhe)
      have "\<bar>y - of_int (f + 1)\<bar> = 1 - d"
        using d1 by (simp add: y)
      with tie False show ?thesis by (simp add: r)
    qed
  qed
qed

lemma rounded_to_py_round: "rounded_to n x (py_round x n)"
proof -
  have "py_round x n * 10 ^ n = of_int (round_half_even (x * 10 ^ n))"
    by (simp add: py_round_def)
  then show ?thesis
    using round_half_even_near [of "x * 10 ^ n"]
    by (simp add: rounded_to_def Let_def)
qed

lemma rounded_to_unique:
  assumes "rounded_to n x r"
  shows "r = py_round x n"
proof -
  define y where "y = x * 10 ^ n"
  define k where "k = \<lfloor>r * 10 ^ n\<rfloor>"
  define j where "j = round_half_even y"
  from assms have rk: "of_int k = r * 10 ^ n"
    and near: "\<bar>y - of_int k\<bar> \<le> 1 / 2"
    and tie: "\<bar>y - of_int k\<bar> = 1 / 2 \<longrightarrow> even k"
    by (simp_all add: rounded_to_def Let_def k_def y_def)
  have jnear: "\<bar>y - of_int j\<bar> \<le> 1 / 2"
    and jtie: "\<bar>y - of_int j\<bar> = 1 / 2 \<longrightarrow> even j"
    using round_half_even_near [of y] by (simp_all add: j_def)
  have "k = j"
  proof (rule ccontr)
    assume ne: "k \<noteq> j"
    have "\<bar>(of_int k :: rat) - of_int j\<bar> \<le> 1"
      using near jnear by linarith
    then have "\<bar>k - j\<bar> \<le> 1"
      by (metis of_int_1 of_int_abs of_int_diff of_int_le_iff)
    with ne have d: "k = j + 1 \<or> j = k + 1"
      by linarith
    then have "(of_int k :: rat) = of_int j + 1 \<or> (of_int j :: rat) = of_int k + 1"
      by auto
    then have "\<bar>y - of_int k\<bar> = 1 / 2" and "\<bar>y - of_int j\<bar> = 1 / 2"
      using near jnear by linarith+
    with tie jtie have "even k" "even j"
      by simp_all
    with d show False by auto
  qed
  then have "r * 10 ^ n = of_int (round_half_even (x * 10 ^ n))"
    using rk by (simp add: j_def y_def)
  then show ?thesis
    by (simp add: py_round_def field_simps)
qed

text \<open>Claim C1: when the engine path gets a sequence of labelled turns from the engine, the
  result is the success document in which every segment stands at its turn's place and
  carries as \<open>speakerId\<close> the id of its label by first appearance, and the speakers are
  listed by id from 1 up to the number of distinct labels; the ids in use are exactly 1 to
  that number, and a label that first appears earlier has the smaller id. For turns A, B, A
  lasting 2.0, 1.5 and 3.0 seconds the run gives id 1 to A, id 2 to B and the totals 5.0
  and 1.5.\<close>

theorem dense_speaker_ids:
  assumes "pyannote_importable w" and "resolve_token hf_token (environ w) = Some tok"
    and "tok \<noteq> []" and "snd (run_engine w tok path) = Inr tracks"
  shows "(\<exists>segs sps.
            snd (pyannote_diarization w path hf_token) =
              Inr (DiarSuccess ''pyannote'' (card (set (map speaker_label tracks))) segs sps)
            \<and> segs = map (\<lambda>t. make_segment
                                (first_appearance_id (map speaker_label tracks) (speaker_label t)) t)
                         tracks
            \<and> map speakerId segs
                = map (\<lambda>t. first_appearance_id (map speaker_label tracks) (speaker_label t)) tracks
            \<and> map speaker_id sps = [1..<Suc (card (set (map speaker_label tracks)))]
            \<and> map name sps = map (\<lambda>i. ''Speaker '' @ str_nat i)
                                [1..<Suc (card (set (map speaker_label tracks)))])
         \<and> first_appearance_id (map speaker_label tracks) ` set (map speaker_label tracks)
             = {1..card (set (map speaker_label tracks))}
         \<and> (\<forall>a b. a \<in> set (takeWhile (\<lambda>x. x \<noteq> b) (map speaker_label tracks)) \<longrightarrow>
                first_appearance_id (map speaker_label tracks) a
                  < first_appearance_id (map speaker_label tracks) b)
         \<and> snd (pyannote_diarization
                  (engine_world [''HF_TOKEN'' \<mapsto> ''hf_secondary''] (Inr three_turns))
                  ''talk.wav'' None) =
             Inr (DiarSuccess ''pyannote'' 2
                    [\<lparr>seg_start = 0, seg_end = 2, speaker = ''Speaker 1'', speakerId = 1\<rparr>,
                     \<lparr>seg_start = 2, seg_end = 7 / 2, speaker = ''Speaker 2'', speakerId = 2\<rparr>,
                     \<lparr>seg_start = 7 / 2, seg_end = 13 / 2, speaker = ''Speaker 1'',
                        speakerId = 1\<rparr>]
                    [\<lparr>speaker_id = 1, name = ''Speaker 1'', total_duration = 5\<rparr>,
                     \<lparr>speaker_id = 2, name = ''Speaker 2'', total_duration = 3 / 2\<rparr>])"
proof -
  let ?ls = "map speaker_label tracks"
  let ?segs = "map (\<lambda>t. make_segment (first_appearance_id ?ls (speaker_label t)) t) tracks"
  let ?sps = "map (\<lambda>i. \<lparr>speaker_id = i, name = ''Speaker '' @ str_nat i,
                         total_duration = py_round (speaking_time w tracks i) 2\<rparr>)
                  [1..<Suc (card (set ?ls))]"
  have "snd (pyannote_diarization w path hf_token)
          = Inr (DiarSuccess ''pyannote'' (card (set ?ls)) ?segs ?sps)"
    using pyannote_engine_success [OF assms] build_result_process_tracks [of w tracks] by simp
  moreover have "map speakerId ?segs = map (\<lambda>t. first_appearance_id ?ls (speaker_label t)) tracks"
    by (simp add: make_segment_def o_def)
  moreover have "map speaker_id ?sps = [1..<Suc (card (set ?ls))]"
    by (simp add: o_def del: upt_Suc)
  moreover have "map name ?sps = map (\<lambda>i. ''Speaker '' @ str_nat i) [1..<Suc (card (set ?ls))]"
    by (simp add: o_def del: upt_Suc)
  ultimately have general: "\<exists>segs sps.
            snd (pyannote_diarization w path hf_token) =
              Inr (DiarSuccess ''pyannote'' (card (set ?ls)) segs sps)
            \<and> segs = ?segs
            \<and> map speakerId segs = map (\<lambda>t. first_appearance_id ?ls (speaker_label t)) tracks
            \<and> map speaker_id sps = [1..<Suc (card (set ?ls))]
            \<and> map name sps = map (\<lambda>i. ''Speaker '' @ str_nat i) [1..<Suc (card (set ?ls))]"
    by blast
  have example: "snd (pyannote_diarization
                  (engine_world [''HF_TOKEN'' \<mapsto> ''hf_secondary''] (Inr three_turns))
                  ''talk.wav'' None) =
             Inr (DiarSuccess ''pyannote'' 2
                    [\<lparr>seg_start = 0, seg_end = 2, speaker = ''Speaker 1'', speakerId = 1\<rparr>,
                     \<lparr>seg_start = 2, seg_end = 7 / 2, speaker = ''Speaker 2'', speakerId = 2\<rparr>,
                     \<lparr>seg_start = 7 / 2, seg_end = 13 / 2, speaker = ''Speaker 1'',
                        speakerId = 1\<rparr>]
                    [\<lparr>speaker_id = 1, name = ''Speaker 1'', total_duration = 5\<rparr>,
                     \<lparr>speaker_id = 2, name = ''Speaker 2'', total_duration = 3 / 2\<rparr>])"
    by code_simp
  show ?thesis
    using general example fid_image [of ?ls] fid_order [of _ _ ?ls]
    by blast
qed

theorem dense_speaker_ids_witness:
  "pyannote_importable (engine_world [''HF_TOKEN'' \<mapsto> ''hf_secondary''] (Inr three_turns))
   \<and> resolve_token None (environ (engine_world [''HF_TOKEN'' \<mapsto> ''hf_secondary''] (Inr three_turns)))
       = Some ''hf_secondary''
   \<and> ''hf_secondary'' \<noteq> []
   \<and> snd (run_engine (engine_world [''HF_TOKEN'' \<mapsto> ''hf_secondary''] (Inr three_turns))
            ''hf_secondary'' ''talk.wav'') = Inr three_turns
   \<and> ''A'' \<in> set (takeWhile (\<lambda>x. x \<noteq> ''B'') (map speaker_label three_turns))
   \<and> first_appearance_id (map speaker_label three_turns) ''A''
       < first_appearance_id (map speaker_label three_turns) ''B''
   \<and> first_appearance_id (map speaker_label three_turns) ''A'' = 1
   \<and> first_appearance_id (map speaker_label three_turns) ''B'' = 2
   \<and> (\<exists>segs sps.
         snd (pyannote_diarization
                (engine_world [''HF_TOKEN'' \<mapsto> ''hf_secondary''] (Inr three_turns))
                ''talk.wav'' None) = Inr (DiarSuccess ''pyannote'' 2 segs sps)
         \<and> map speakerId segs = [1, 2, 1]
         \<and> map speaker_id sps = [1, 2]
         \<and> map name sps = [''Speaker 1'', ''Speaker 2''])"
proof -
  let ?w = "engine_world [''HF_TOKEN'' \<mapsto> ''hf_secondary''] (Inr three_turns)"
  have h1: "pyannote_importable ?w"
    by (simp add: engine_world_def)
  have h2: "resolve_token None (environ ?w) = Some ''hf_secondary''"
    by (simp add: engine_world_def resolve_token_cases)
  have h3: "''hf_secondary'' \<noteq> []"
    by simp
  have h4: "snd (run_engine ?w ''hf_secondary'' ''talk.wav'') = Inr three_turns"
    by (simp add: engine_world_def run_engine_def)
  have before: "''A'' \<in> set (takeWhile (\<lambda>x. x \<noteq> ''B'') (map speaker_label three_turns))"
    by (simp add: three_turns_def)
  have ids: "first_appearance_id (map speaker_label three_turns) ''A'' = 1"
            "first_appearance_id (map speaker_label three_turns) ''B'' = 2"
    by (simp_all add: first_appearance_id_def three_turns_def)
  have n: "card (set (map speaker_label three_turns)) = 2"
    by code_simp
  have sids: "map (\<lambda>t. first_appearance_id (map speaker_label three_turns) (speaker_label t))
                three_turns = [1, 2, 1]"
    by (simp add: first_appearance_id_def three_turns_def)
  have names: "map (\<lambda>i. ''Speaker '' @ str_nat i) [1, 2] = [''Speaker 1'', ''Speaker 2'']"
    by code_simp
  have upt: "[1..<Suc 2] = [1, 2]"
    by code_simp
  note t = dense_speaker_ids [OF h1 h2 h3 h4]
  from t [THEN conjunct1] have "\<exists>segs sps.
    snd (pyannote_diarization ?w ''talk.wav'' None) = Inr (DiarSuccess ''pyannote'' 2 segs sps)
    \<and> map speakerId segs = [1, 2, 1] \<and> map speaker_id sps = [1, 2]
    \<and> map name sps = [''Speaker 1'', ''Speaker 2'']"
    unfolding n sids upt names by (elim exE conjE, intro exI conjI) assumption+
  moreover from t before have "first_appearance_id (map speaker_label three_turns) ''A''
       < first_appearance_id (map speaker_label three_turns) ''B''"
    by blast
  ultimately show ?thesis
    using h1 h2 h3 h4 before ids by blast
qed

text \<open>Claim C3, as amended: in a successful result of the engine path \<open>segments\<close> has one
  entry per turn, in order, whose \<open>start\<close> and \<open>end\<close> are the turn's boundaries rounded
  to 3 decimals; \<open>speakers\<close> lists, in ascending order and once each, the ids that occur
  as \<open>speakerId\<close> in \<open>segments\<close>; and each speaker's \<open>total_duration\<close> is the
  floating-point sum, taken from 0 in the order of the turns, of the engine's unrounded
  \<open>end - start\<close> over the turns behind that speaker's segments, rounded to 2 decimals.\<close>

theorem total_duration_rounded_turn_sum:
  assumes "pyannote_importable w" and "resolve_token hf_token (environ w) = Some tok"
    and "tok \<noteq> []" and "snd (run_engine w tok path) = Inr tracks"
  shows "\<exists>segs sps.
           snd (pyannote_diarization w path hf_token)
             = Inr (DiarSuccess ''pyannote'' (length sps) segs sps)
           \<and> length segs = length tracks
           \<and> list_all2 (\<lambda>t s. rounded_to 3 (turn_start t) (seg_start s)
                               \<and> rounded_to 3 (turn_end t) (seg_end s)) tracks segs
           \<and> map speaker_id sps = sorted_list_of_set (set (map speakerId segs))
           \<and> list_all (\<lambda>sp. rounded_to 2 (turns_total w tracks segs (speaker_id sp))
                                (total_duration sp)) sps"
proof -
  let ?ls = "map speaker_label tracks"
  let ?n = "card (set ?ls)"
  let ?segs = "map (\<lambda>t. make_segment (first_appearance_id ?ls (speaker_label t)) t) tracks"
  let ?sps = "map (\<lambda>i. \<lparr>speaker_id = i, name = ''Speaker '' @ str_nat i,
                         total_duration = py_round (speaking_time w tracks i) 2\<rparr>)
                  [1..<Suc ?n]"
  have len: "length ?sps = ?n"
    by (simp del: upt_Suc)
  have "snd (pyannote_diarization w path hf_token)
          = Inr (DiarSuccess ''pyannote'' (length ?sps) ?segs ?sps)"
    using pyannote_engine_success [OF assms] build_result_process_tracks [of w tracks]
    by (simp only: len)
  moreover have "length ?segs = length tracks"
    by simp
  moreover have "list_all2 (\<lambda>t s. rounded_to 3 (turn_start t) (seg_start s)
                               \<and> rounded_to 3 (turn_end t) (seg_end s)) tracks ?segs"
    by (simp add: list_all2_map2 list_all2_same make_segment_def rounded_to_py_round)
  moreover have "map speaker_id ?sps = sorted_list_of_set (set (map speakerId ?segs))"
  proof -
    have "set (map speakerId ?segs) = first_appearance_id ?ls ` set ?ls"
      by (auto simp: make_segment_def)
    also have "\<dots> = {1..<Suc ?n}"
      by (simp only: fid_image atLeastLessThanSuc_atLeastAtMost)
    finally have "sorted_list_of_set (set (map speakerId ?segs)) = [1..<Suc ?n]"
      by (simp only: sorted_list_of_set_range)
    moreover have "map speaker_id ?sps = [1..<Suc ?n]"
      by (simp add: o_def del: upt_Suc)
    ultimately show ?thesis by simp
  qed
  moreover have "turns_total w tracks ?segs i = speaking_time w tracks i" for i
    by (simp only: turns_total_make_segment speaking_time_def)
  then have "list_all (\<lambda>sp. rounded_to 2 (turns_total w tracks ?segs (speaker_id sp))
                                (total_duration sp)) ?sps"
    by (simp add: list_all_iff rounded_to_py_round del: upt_Suc)
  ultimately show ?thesis by blast
qed

text \<open>The run on the turns with decimal boundaries: speaker 1 talks from 0.0 to 0.1 and from
  0.2 to 0.605; the differences are 0.1 and 0.40499999999999997, their floating-point sum
  is the double 0.505, and the total is 0.51, where the exact sum would round to 0.5.\<close>

theorem total_duration_rounded_turn_sum_witness:
  "pyannote_importable (engine_world [''HF_TOKEN'' \<mapsto> ''hf_secondary''] (Inr decimal_turns))
   \<and> resolve_token None
         (environ (engine_world [''HF_TOKEN'' \<mapsto> ''hf_secondary''] (Inr decimal_turns)))
       = Some ''hf_secondary''
   \<and> ''hf_secondary'' \<noteq> []
   \<and> snd (run_engine (engine_world [''HF_TOKEN'' \<mapsto> ''hf_secondary''] (Inr decimal_turns))
            ''hf_secondary'' ''talk.wav'') = Inr decimal_turns
   \<and> snd (pyannote_diarization
            (engine_world [''HF_TOKEN'' \<mapsto> ''hf_secondary''] (Inr decimal_turns))
            ''talk.wav'' None) =
       Inr (DiarSuccess ''pyannote'' 2
              [\<lparr>seg_start = 0, seg_end = 1 / 10, speaker = ''Speaker 1'', speakerId = 1\<rparr>,
               \<lparr>seg_start = 1 / 10, seg_end = 1 / 5, speaker = ''Speaker 2'', speakerId = 2\<rparr>,
               \<lparr>seg_start = 1 / 5, seg_end = 121 / 200, speaker = ''Speaker 1'',
                  speakerId = 1\<rparr>]
              [\<lparr>speaker_id = 1, name = ''Speaker 1'', total_duration = 51 / 100\<rparr>,
               \<lparr>speaker_id = 2, name = ''Speaker 2'', total_duration = 1 / 10\<rparr>])
   \<and> (\<exists>segs sps.
         snd (pyannote_diarization
                (engine_world [''HF_TOKEN'' \<mapsto> ''hf_secondary''] (Inr decimal_turns))
                ''talk.wav'' None)
           = Inr (DiarSuccess ''pyannote'' (length sps) segs sps)
         \<and> length segs = length decimal_turns
         \<and> list_all2 (\<lambda>t s. rounded_to 3 (turn_start t) (seg_start s)
                             \<and> rounded_to 3 (turn_end t) (seg_end s)) decimal_turns segs
         \<and> map speaker_id sps = sorted_list_of_set (set (map speakerId segs))
         \<and> list_all (\<lambda>sp. rounded_to 2
                 (turns_total (engine_world [''HF_TOKEN'' \<mapsto> ''hf_secondary''] (Inr decimal_turns))
                    decimal_turns segs (speaker_id sp))
                 (total_duration sp)) sps)
   \<and> turns_total (engine_world [''HF_TOKEN'' \<mapsto> ''hf_secondary''] (Inr decimal_turns))
         decimal_turns
         [\<lparr>seg_start = 0, seg_end = 1 / 10, speaker = ''Speaker 1'', speakerId = 1\<rparr>,
          \<lparr>seg_start = 1 / 10, seg_end = 1 / 5, speaker = ''Speaker 2'', speakerId = 2\<rparr>,
          \<lparr>seg_start = 1 / 5, seg_end = 121 / 200, speaker = ''Speaker 1'', speakerId = 1\<rparr>] 1
       = 4548635623644201 / 9007199254740992
   \<and> py_round (4548635623644201 / 9007199254740992) 2 = 51 / 100
   \<and> py_round ((binary64 (1 / 10) - 0) + (binary64 (121 / 200) - binary64 (1 / 5))) 2 = 1 / 2"
proof -
  let ?w = "engine_world [''HF_TOKEN'' \<mapsto> ''hf_secondary''] (Inr decimal_turns)"
  have h1: "pyannote_importable ?w"
    by (simp add: engine_world_def)
  have h2: "resolve_token None (environ ?w) = Some ''hf_secondary''"
    by (simp add: engine_world_def resolve_token_cases)
  have h3: "''hf_secondary'' \<noteq> []"
    by simp
  have h4: "snd (run_engine ?w ''hf_secondary'' ''talk.wav'') = Inr decimal_turns"
    by (simp add: engine_world_def run_engine_def)
  have run: "snd (pyannote_diarization ?w ''talk.wav'' None) =
       Inr (DiarSuccess ''pyannote'' 2
              [\<lparr>seg_start = 0, seg_end = 1 / 10, speaker = ''Speaker 1'', speakerId = 1\<rparr>,
               \<lparr>seg_start = 1 / 10, seg_end = 1 / 5, speaker = ''Speaker 2'', speakerId = 2\<rparr>,
               \<lparr>seg_start = 1 / 5, seg_end = 121 / 200, speaker = ''Speaker 1'',
                  speakerId = 1\<rparr>]
              [\<lparr>speaker_id = 1, name = ''Speaker 1'', total_duration = 51 / 100\<rparr>,
               \<lparr>speaker_id = 2, name = ''Speaker 2'', total_duration = 1 / 10\<rparr>])"
    by code_simp
  have tot: "turns_total ?w decimal_turns
         [\<lparr>seg_start = 0, seg_end = 1 / 10, speaker = ''Speaker 1'', speakerId = 1\<rparr>,
          \<lparr>seg_start = 1 / 10, seg_end = 1 / 5, speaker = ''Speaker 2'', speakerId = 2\<rparr>,
          \<lparr>seg_start = 1 / 5, seg_end = 121 / 200, speaker = ''Speaker 1'', speakerId = 1\<rparr>] 1
       = 4548635623644201 / 9007199254740992"
    by code_simp
  have r1: "py_round (4548635623644201 / 9007199254740992) 2 = 51 / 100"
    by code_simp
  have r2: "py_round ((binary64 (1 / 10) - 0) + (binary64 (121 / 200) - binary64 (1 / 5))) 2 = 1 / 2"
    by code_simp
  show ?thesis
    using total_duration_rounded_turn_sum [OF h1 h2 h3 h4] h1 h2 h4 run tot r1 r2
    by (simp only: simp_thms h3)
qed

text \<open>Without the rounding the equality fails, whether the sum is taken over the emitted
  segments (boundaries rounded to 3 decimals), exactly or in floating point, or over the
  turns: for one turn from 0 to 0.0078125 the segment ends at 0.008 and the total is 0.01.\<close>

theorem segment_sum_counterexample:
  "snd (diarize_main (engine_world [''HF_TOKEN'' \<mapsto> ''hf_secondary''] (Inr short_turn))
          (engine_args None)) =
     Exited (DiarSuccess ''pyannote'' 1
               [\<lparr>seg_start = 0, seg_end = 1 / 125, speaker = ''Speaker 1'', speakerId = 1\<rparr>]
               [\<lparr>speaker_id = 1, name = ''Speaker 1'', total_duration = 1 / 100\<rparr>]) 0
   \<and> segments_total (+) (-)
         [\<lparr>seg_start = 0, seg_end = 1 / 125, speaker = ''Speaker 1'', speakerId = 1\<rparr>] 1
       = 1 / 125
   \<and> segments_total (\<lambda>a b. binary64 (a + b)) (\<lambda>a b. binary64 (a - b))
         [\<lparr>seg_start = 0, seg_end = 1 / 125, speaker = ''Speaker 1'', speakerId = 1\<rparr>] 1
       = 1152921504606847 / 144115188075855872
   \<and> turns_total (engine_world [''HF_TOKEN'' \<mapsto> ''hf_secondary''] (Inr short_turn)) short_turn
         [\<lparr>seg_start = 0, seg_end = 1 / 125, speaker = ''Speaker 1'', speakerId = 1\<rparr>] 1
       = 1 / 128
   \<and> total_duration \<lparr>speaker_id = 1, name = ''Speaker 1'', total_duration = 1 / 100\<rparr>
       \<noteq> segments_total (+) (-)
           [\<lparr>seg_start = 0, seg_end = 1 / 125, speaker = ''Speaker 1'', speakerId = 1\<rparr>] 1
   \<and> total_duration \<lparr>speaker_id = 1, name = ''Speaker 1'', total_duration = 1 / 100\<rparr>
       \<noteq> segments_total (\<lambda>a b. binary64 (a + b)) (\<lambda>a b. binary64 (a - b))
           [\<lparr>seg_start = 0, seg_end = 1 / 125, speaker = ''Speaker 1'', speakerId = 1\<rparr>] 1"
proof -
  have run: "snd (diarize_main (engine_world [''HF_TOKEN'' \<mapsto> ''hf_secondary''] (Inr short_turn))
          (engine_args None)) =
     Exited (DiarSuccess ''pyannote'' 1
               [\<lparr>seg_start = 0, seg_end = 1 / 125, speaker = ''Speaker 1'', speakerId = 1\<rparr>]
               [\<lparr>speaker_id = 1, name = ''Speaker 1'', total_duration = 1 / 100\<rparr>]) 0"
    by code_simp
  have tot: "segments_total (+) (-)
         [\<lparr>seg_start = 0, seg_end = 1 / 125, speaker = ''Speaker 1'', speakerId = 1\<rparr>] 1
       = 1 / 125"
    by (simp add: segments_total_def)
  have ftot: "segments_total (\<lambda>a b. binary64 (a + b)) (\<lambda>a b. binary64 (a - b))
         [\<lparr>seg_start = 0, seg_end = 1 / 125, speaker = ''Speaker 1'', speakerId = 1\<rparr>] 1
       = 1152921504606847 / 144115188075855872"
    by code_simp
  have raw: "turns_total (engine_world [''HF_TOKEN'' \<mapsto> ''hf_secondary''] (Inr short_turn))
         short_turn
         [\<lparr>seg_start = 0, seg_end = 1 / 125, speaker = ''Speaker 1'', speakerId = 1\<rparr>] 1
       = 1 / 128"
    by code_simp
  show ?thesis
    unfolding run tot ftot raw by simp
qed


section \<open>Properties of the transcription adapter\<close>

lemma subscript_present: "map_of d k = Some v \<Longrightarrow> subscript d k = Inr v"
  by (simp add: subscript_def)

lemma subscript_complete: "map_of d k \<noteq> None \<Longrightarrow> subscript d k = Inr (dict_get d k)"
  by (auto simp: subscript_def dict_get_def)

lemma dict_get_complete: "map_of d k \<noteq> None \<Longrightarrow> Some (dict_get d k) = map_of d k"
  by (auto simp: dict_get_def)

lemma word_data_complete: "word_complete d \<Longrightarrow> word_data d = Inr (copied_word d)"
  by (simp add: word_complete_def word_data_def copied_word_def subscript_complete)

lemma segment_data_complete: "segment_complete s \<Longrightarrow> segment_data s = Inr (copied_segment s)"
  by (simp add: segment_complete_def segment_data_def copied_segment_def subscript_complete)

lemma append_words_complete:
  "list_all word_complete ws \<Longrightarrow> append_words ws wds = Inr (wds @ map copied_word ws)"
  by (induction ws arbitrary: wds) (simp_all add: word_data_complete)

lemma append_segments_complete:
  "list_all segment_complete segs \<Longrightarrow>
   list_all (\<lambda>s. list_all word_complete (words_of s)) segs \<Longrightarrow>
   append_segments segs (sds, wds) =
     Inr (sds @ map copied_segment segs, wds @ concat (map (\<lambda>s. map copied_word (words_of s)) segs))"
proof (induction segs arbitrary: sds wds)
  case Nil
  show ?case by simp
next
  case (Cons s segs)
  then show ?case
    by (cases "seg_words s")
       (simp_all add: segment_data_complete append_words_complete words_of_def)
qed

lemma format_result_complete:
  assumes "map_of (res_items result) ''text'' = Some txt"
    and "res_segments result = Some segs"
    and "list_all segment_complete segs"
    and "list_all (\<lambda>s. list_all word_complete (words_of s)) segs"
  shows "format_result result =
           Inr (TransSuccess txt
                  (case map_of (res_items result) ''language'' of
                     None \<Rightarrow> PyStr ''unknown'' | Some l \<Rightarrow> l)
                  (map copied_segment segs)
                  (concat (map (\<lambda>s. map copied_word (words_of s)) segs)))"
  using assms
  by (simp add: format_result_def subscript_present append_segments_complete)

lemma format_result_language:
  "format_result result = Inr formatted \<Longrightarrow> t_success formatted \<Longrightarrow>
   t_language formatted =
     (case map_of (res_items result) ''language'' of None \<Rightarrow> PyStr ''unknown'' | Some l \<Rightarrow> l)"
  by (auto simp: format_result_def Let_def split: sum.splits option.splits)

lemma transcribe_audio_loaded:
  assumes "load_model w mname = Inr model"
  shows "transcribe_audio w path mname language =
           ([LoadModel mname, Transcribe path (build_options language)],
            case transcribe w model path (build_options language) of
              Inl e \<Rightarrow> except_Exception TransFailure e
            | Inr result \<Rightarrow>
                (case format_result result of
                   Inl e \<Rightarrow> except_Exception TransFailure e
                 | Inr formatted \<Rightarrow> Inr formatted))"
  using assms by (simp add: transcribe_audio_def Let_def split: sum.splits)

lemma whisper_script_runs:
  assumes "whisper_importable w" and "path_exists w (w_audio_path args) = Inr True"
  shows "whisper_script w args =
           (case transcribe_audio w (w_audio_path args) (model_name (w_model args)) (w_language args) of
              (calls, Inl e) \<Rightarrow> (ImportWhisper # calls, Unhandled e)
            | (calls, Inr result) \<Rightarrow>
                (ImportWhisper # calls, Exited result (if t_success result then 0 else 1)))"
  using assms by (simp add: whisper_script_def whisper_main_def split: prod.splits sum.splits)

text \<open>An exception raised by the existence check is caught by nothing.\<close>

lemma whisper_script_check_raises:
  assumes "whisper_importable w" and "path_exists w (w_audio_path args) = Inl e"
  shows "whisper_script w args = ([ImportWhisper], Unhandled e)"
  using assms by (simp add: whisper_script_def whisper_main_def)

text \<open>Claim C6: when the model loads and the engine returns a result with a text and two
  segments of two words each (each segment with start, end and text, each word with word,
  start and end), the function succeeds and its \<open>words\<close> are four entries, the words of
  the first segment and then those of the second, in their order, each holding the
  engine's word, start and end values as they are and nothing else of the word.\<close>

theorem two_segments_two_words:
  assumes "load_model w mname = Inr model"
    and "transcribe w model path (build_options language) = Inr result"
    and "map_of (res_items result) ''text'' = Some txt"
    and "res_segments result = Some [s1, s2]"
    and "segment_complete s1" and "segment_complete s2"
    and "seg_words s1 = Some [w11, w12]" and "seg_words s2 = Some [w21, w22]"
    and "list_all word_complete [w11, w12, w21, w22]"
  shows "\<exists>lang segs wds.
           snd (transcribe_audio w path mname language) = Inr (TransSuccess txt lang segs wds)
           \<and> length wds = 4
           \<and> map (\<lambda>e. Some (word_word e)) wds = map (\<lambda>d. map_of d ''word'') [w11, w12, w21, w22]
           \<and> map (\<lambda>e. Some (word_start e)) wds = map (\<lambda>d. map_of d ''start'') [w11, w12, w21, w22]
           \<and> map (\<lambda>e. Some (word_end e)) wds = map (\<lambda>d. map_of d ''end'') [w11, w12, w21, w22]"
proof -
  let ?lang = "case map_of (res_items result) ''language'' of
                 None \<Rightarrow> PyStr ''unknown'' | Some l \<Rightarrow> l"
  let ?wds = "[copied_word w11, copied_word w12, copied_word w21, copied_word w22]"
  have "format_result result =
          Inr (TransSuccess txt ?lang (map copied_segment [s1, s2])
                 (concat (map (\<lambda>s. map copied_word (words_of s)) [s1, s2])))"
    using assms(3-9) by (intro format_result_complete) (simp_all add: words_of_def)
  then have "format_result result =
          Inr (TransSuccess txt ?lang [copied_segment s1, copied_segment s2] ?wds)"
    using assms(7,8) by (simp add: words_of_def)
  then have "snd (transcribe_audio w path mname language) =
          Inr (TransSuccess txt ?lang [copied_segment s1, copied_segment s2] ?wds)"
    by (simp add: transcribe_audio_loaded [OF assms(1)] assms(2))
  moreover have "length ?wds = 4"
    by simp
  moreover have "Some (word_word (copied_word d)) = map_of d ''word''
               \<and> Some (word_start (copied_word d)) = map_of d ''start''
               \<and> Some (word_end (copied_word d)) = map_of d ''end''"
    if "word_complete d" for d
    using that by (simp add: word_complete_def copied_word_def dict_get_complete)
  then have "map (\<lambda>e. Some (word_word e)) ?wds = map (\<lambda>d. map_of d ''word'') [w11, w12, w21, w22]"
    "map (\<lambda>e. Some (word_start e)) ?wds = map (\<lambda>d. map_of d ''start'') [w11, w12, w21, w22]"
    "map (\<lambda>e. Some (word_end e)) ?wds = map (\<lambda>d. map_of d ''end'') [w11, w12, w21, w22]"
    using assms(9) by simp_all
  ultimately show ?thesis by blast
qed


theorem two_segments_two_words_witness:
  "load_model (whisper_world (Inr ()) (Inr two_by_two)) ''small'' = Inr ()
   \<and> transcribe (whisper_world (Inr ()) (Inr two_by_two)) () ''talk.wav'' (build_options None)
       = Inr two_by_two
   \<and> map_of (res_items two_by_two) ''text'' = Some (PyStr '' Good day. See you.'')
   \<and> (\<exists>s1 s2 w11 w12 w21 w22.
         res_segments two_by_two = Some [s1, s2]
         \<and> segment_complete s1 \<and> segment_complete s2
         \<and> seg_words s1 = Some [w11, w12] \<and> seg_words s2 = Some [w21, w22]
         \<and> list_all word_complete [w11, w12, w21, w22])
   \<and> snd (transcribe_audio (whisper_world (Inr ()) (Inr two_by_two)) ''talk.wav'' ''small'' None)
       = Inr (TransSuccess (PyStr '' Good day. See you.'') (PyStr ''en'')
               [\<lparr>tseg_start = PyFloat 0, tseg_end = PyFloat (6 / 5), tseg_text = PyStr '' Good day.''\<rparr>,
                \<lparr>tseg_start = PyFloat (3 / 2), tseg_end = PyFloat (5 / 2), tseg_text = PyStr '' See you.''\<rparr>]
               [\<lparr>word_word = PyStr '' Good'', word_start = PyFloat 0, word_end = PyFloat (1 / 2)\<rparr>,
                \<lparr>word_word = PyStr '' day.'', word_start = PyFloat (1 / 2), word_end = PyFloat (6 / 5)\<rparr>,
                \<lparr>word_word = PyStr '' See'', word_start = PyFloat (3 / 2), word_end = PyFloat 2\<rparr>,
                \<lparr>word_word = PyStr '' you.'', word_start = PyFloat 2, word_end = PyFloat (5 / 2)\<rparr>])"
proof -
  let ?w = "whisper_world (Inr ()) (Inr two_by_two)"
  let ?s1 = "\<lparr>seg_items = [(''id'', PyInt 0), (''start'', PyFloat 0), (''end'', PyFloat (6 / 5)),
                       (''text'', PyStr '' Good day.'')],
          seg_words = Some
            [[(''word'', PyStr '' Good''), (''start'', PyFloat 0), (''end'', PyFloat (1 / 2)),
              (''probability'', PyFloat (9 / 10))],
             [(''word'', PyStr '' day.''), (''start'', PyFloat (1 / 2)), (''end'', PyFloat (6 / 5)),
              (''probability'', PyFloat (4 / 5))]]\<rparr>"
  let ?s2 = "\<lparr>seg_items = [(''id'', PyInt 1), (''start'', PyFloat (3 / 2)), (''end'', PyFloat (5 / 2)),
                       (''text'', PyStr '' See you.'')],
          seg_words = Some
            [[(''word'', PyStr '' See''), (''start'', PyFloat (3 / 2)), (''end'', PyFloat 2),
              (''probability'', PyFloat (7 / 10))],
             [(''word'', PyStr '' you.''), (''start'', PyFloat 2), (''end'', PyFloat (5 / 2)),
              (''probability'', PyFloat (3 / 5))]]\<rparr>"
  let ?w11 = "[(''word'', PyStr '' Good''), (''start'', PyFloat 0), (''end'', PyFloat (1 / 2)),
              (''probability'', PyFloat (9 / 10))]"
  let ?w12 = "[(''word'', PyStr '' day.''), (''start'', PyFloat (1 / 2)), (''end'', PyFloat (6 / 5)),
              (''probability'', PyFloat (4 / 5))]"
  let ?w21 = "[(''word'', PyStr '' See''), (''start'', PyFloat (3 / 2)), (''end'', PyFloat 2),
              (''probability'', PyFloat (7 / 10))]"
  let ?w22 = "[(''word'', PyStr '' you.''), (''start'', PyFloat 2), (''end'', PyFloat (5 / 2)),
              (''probability'', PyFloat (3 / 5))]"
  have h1: "load_model ?w ''small'' = Inr ()"
    by (simp add: whisper_world_def)
  have h2: "transcribe ?w () ''talk.wav'' (build_options None) = Inr two_by_two"
    by (simp add: whisper_world_def)
  have h3: "map_of (res_items two_by_two) ''text'' = Some (PyStr '' Good day. See you.'')"
    by (simp add: two_by_two_def)
  have h4: "res_segments two_by_two = Some [?s1, ?s2]"
    by (simp add: two_by_two_def)
  have h5: "segment_complete ?s1" and h6: "segment_complete ?s2"
    by (simp_all add: segment_complete_def)
  have h7: "seg_words ?s1 = Some [?w11, ?w12]" and h8: "seg_words ?s2 = Some [?w21, ?w22]"
    by simp_all
  have h9: "list_all word_complete [?w11, ?w12, ?w21, ?w22]"
    by (simp add: word_complete_def)
  have shape: "\<exists>s1 s2 w11 w12 w21 w22.
         res_segments two_by_two = Some [s1, s2]
         \<and> segment_complete s1 \<and> segment_complete s2
         \<and> seg_words s1 = Some [w11, w12] \<and> seg_words s2 = Some [w21, w22]
         \<and> list_all word_complete [w11, w12, w21, w22]"
    using h4 h5 h6 h7 h8 h9 by blast
  obtain lang segs wds where
    r: "snd (transcribe_audio ?w ''talk.wav'' ''small'' None)
          = Inr (TransSuccess (PyStr '' Good day. See you.'') lang segs wds)"
    and w: "map (\<lambda>e. Some (word_word e)) wds = map (\<lambda>d. map_of d ''word'') [?w11, ?w12, ?w21, ?w22]"
    using two_segments_two_words [OF h1 h2 h3 h4 h5 h6 h7 h8 h9] by blast
  have ev: "snd (transcribe_audio ?w ''talk.wav'' ''small'' None)
       = Inr (TransSuccess (PyStr '' Good day. See you.'') (PyStr ''en'')
               [\<lparr>tseg_start = PyFloat 0, tseg_end = PyFloat (6 / 5), tseg_text = PyStr '' Good day.''\<rparr>,
                \<lparr>tseg_start = PyFloat (3 / 2), tseg_end = PyFloat (5 / 2), tseg_text = PyStr '' See you.''\<rparr>]
               [\<lparr>word_word = PyStr '' Good'', word_start = PyFloat 0, word_end = PyFloat (1 / 2)\<rparr>,
                \<lparr>word_word = PyStr '' day.'', word_start = PyFloat (1 / 2), word_end = PyFloat (6 / 5)\<rparr>,
                \<lparr>word_word = PyStr '' See'', word_start = PyFloat (3 / 2), word_end = PyFloat 2\<rparr>,
                \<lparr>word_word = PyStr '' you.'', word_start = PyFloat 2, word_end = PyFloat (5 / 2)\<rparr>])"
    by (simp add: transcribe_audio_def whisper_world_def two_by_two_def format_result_def
          subscript_def segment_data_def word_data_def build_options_def)
  from h1 h2 h3 shape ev r show ?thesis by simp
qed

text \<open>Claim C9, as amended: the options handed to the engine hold a \<open>language\<close> entry
  exactly when a language was supplied that is neither the empty string nor \<open>auto\<close>, and
  the entry is then that language; and the \<open>language\<close> of a successful result is the
  engine's value when its result has the key, and \<open>unknown\<close> when it has not.\<close>

theorem language_option_and_default:
  "(''language'' \<in> fst ` set (build_options language)
      \<longleftrightarrow> (\<exists>l. language = Some l \<and> l \<noteq> [] \<and> l \<noteq> ''auto''))
   \<and> (\<forall>l. language = Some l \<and> l \<noteq> [] \<and> l \<noteq> ''auto'' \<longrightarrow>
          map_of (build_options language) ''language'' = Some (PyStr l))
   \<and> (load_model w mname = Inr model \<longrightarrow>
          fst (transcribe_audio w path mname language)
            = [LoadModel mname, Transcribe path (build_options language)])
   \<and> (load_model w mname = Inr model
        \<and> transcribe w model path (build_options language) = Inr result
        \<and> snd (transcribe_audio w path mname language) = Inr formatted
        \<and> t_success formatted \<longrightarrow>
          t_language formatted =
            (case map_of (res_items result) ''language'' of
               None \<Rightarrow> PyStr ''unknown'' | Some l \<Rightarrow> l))"
proof -
  have a: "''language'' \<in> fst ` set (build_options language)
             \<longleftrightarrow> (\<exists>l. language = Some l \<and> l \<noteq> [] \<and> l \<noteq> ''auto'')"
    by (cases language) (auto simp: build_options_def)
  have b: "map_of (build_options language) ''language'' = Some (PyStr l)"
    if "language = Some l" "l \<noteq> []" "l \<noteq> ''auto''" for l
    using that by (simp add: build_options_def)
  have c: "fst (transcribe_audio w path mname language)
            = [LoadModel mname, Transcribe path (build_options language)]"
    if "load_model w mname = Inr model"
    by (simp add: transcribe_audio_loaded [OF that])
  have d: "t_language formatted =
            (case map_of (res_items result) ''language'' of
               None \<Rightarrow> PyStr ''unknown'' | Some l \<Rightarrow> l)"
    if l: "load_model w mname = Inr model"
      and t: "transcribe w model path (build_options language) = Inr result"
      and r: "snd (transcribe_audio w path mname language) = Inr formatted"
      and s: "t_success formatted"
  proof (cases "format_result result")
    case (Inl e)
    with r s show ?thesis
      by (cases e) (auto simp: transcribe_audio_loaded [OF l] t)
  next
    case (Inr f)
    with r have "f = formatted"
      by (simp add: transcribe_audio_loaded [OF l] t)
    with Inr s show ?thesis
      by (simp add: format_result_language)
  qed
  from a b c d show ?thesis by blast
qed


theorem language_option_and_default_witness:
  "(\<exists>l. Some ''hi'' = Some l \<and> l \<noteq> [] \<and> l \<noteq> ''auto'')
   \<and> ''language'' \<in> fst ` set (build_options (Some ''hi''))
   \<and> map_of (build_options (Some ''hi'')) ''language'' = Some (PyStr ''hi'')
   \<and> ''language'' \<notin> fst ` set (build_options (Some ''auto''))
   \<and> ''language'' \<notin> fst ` set (build_options None)
   \<and> load_model (whisper_world (Inr ()) (Inr two_by_two)) ''small'' = Inr ()
   \<and> fst (transcribe_audio (whisper_world (Inr ()) (Inr two_by_two)) ''talk.wav'' ''small'' (Some ''hi''))
       = [LoadModel ''small'',
          Transcribe ''talk.wav''
            [(''word_timestamps'', PyBool True), (''verbose'', PyBool False),
             (''language'', PyStr ''hi'')]]
   \<and> t_language (TransSuccess (PyStr '' Good day. See you.'') (PyStr ''en'') [] []) = PyStr ''en''
   \<and> load_model (whisper_world (Inr ()) (Inr untagged_result)) ''small'' = Inr ()
   \<and> transcribe (whisper_world (Inr ()) (Inr untagged_result)) () ''talk.wav'' (build_options None)
       = Inr untagged_result
   \<and> snd (transcribe_audio (whisper_world (Inr ()) (Inr untagged_result)) ''talk.wav'' ''small'' None)
       = Inr (TransSuccess (PyStr '' Hm.'') (PyStr ''unknown'') [] [])
   \<and> t_success (TransSuccess (PyStr '' Hm.'') (PyStr ''unknown'') [] [])
   \<and> t_language (TransSuccess (PyStr '' Hm.'') (PyStr ''unknown'') [] []) = PyStr ''unknown''"
proof -
  let ?w = "whisper_world (Inr ()) (Inr untagged_result)"
  let ?r = "TransSuccess (PyStr '' Hm.'') (PyStr ''unknown'') [] []"
  have l: "load_model ?w ''small'' = Inr ()"
    by (simp add: whisper_world_def)
  have t: "transcribe ?w () ''talk.wav'' (build_options None) = Inr untagged_result"
    by (simp add: whisper_world_def)
  have r: "snd (transcribe_audio ?w ''talk.wav'' ''small'' None) = Inr ?r"
    by (simp add: transcribe_audio_def whisper_world_def untagged_result_def format_result_def
          subscript_def)
  have s: "t_success ?r"
    by simp
  have m: "map_of (res_items untagged_result) ''language'' = None"
    by (simp add: untagged_result_def)
  have l2: "load_model (whisper_world (Inr ()) (Inr two_by_two)) ''small'' = Inr ()"
    by (simp add: whisper_world_def)
  have hi: "\<exists>l. Some ''hi'' = Some l \<and> l \<noteq> [] \<and> l \<noteq> ''auto''"
    by simp
  have opts: "build_options (Some ''hi'') =
      [(''word_timestamps'', PyBool True), (''verbose'', PyBool False), (''language'', PyStr ''hi'')]"
    by (simp add: build_options_def)
  note inst1 = language_option_and_default
    [of "Some ''hi''" "whisper_world (Inr ()) (Inr two_by_two)" "''small''" "()" "''talk.wav''"
        two_by_two "TransSuccess (PyStr '' Good day. See you.'') (PyStr ''en'') [] []"]
  note inst2 = language_option_and_default
    [of None ?w "''small''" "()" "''talk.wav''" untagged_result ?r]
  note inst3 = language_option_and_default
    [of "Some ''auto''" ?w "''small''" "()" "''talk.wav''" untagged_result ?r]
  have c1: "''language'' \<in> fst ` set (build_options (Some ''hi''))"
    using inst1 hi by blast
  have c2: "map_of (build_options (Some ''hi'')) ''language'' = Some (PyStr ''hi'')"
    using inst1 by simp
  have c3: "''language'' \<notin> fst ` set (build_options (Some ''auto''))"
    using inst3 by simp
  have c4: "''language'' \<notin> fst ` set (build_options None)"
    using inst2 by simp
  have c5: "fst (transcribe_audio (whisper_world (Inr ()) (Inr two_by_two)) ''talk.wav'' ''small'' (Some ''hi''))
       = [LoadModel ''small'',
          Transcribe ''talk.wav''
            [(''word_timestamps'', PyBool True), (''verbose'', PyBool False),
             (''language'', PyStr ''hi'')]]"
    using inst1 l2 by (simp only: opts)
  have c6: "t_language ?r = PyStr ''unknown''"
    using inst2 l t r s by (simp add: m)
  from hi c1 c2 c3 c4 l2 c5 l t r s c6 show ?thesis
    by simp
qed

text \<open>A language given as the empty string is supplied and is not \<open>auto\<close>, yet the call
  to the engine carries no \<open>language\<close> option.\<close>

theorem language_option_and_default_counterexample:
  "w_language (whisper_args_for ''talk.wav'' (Some [])) = Some []
   \<and> Some [] \<noteq> (None :: string option)
   \<and> Some [] \<noteq> Some ''auto''
   \<and> fst (whisper_script (whisper_world (Inr ()) (Inr two_by_two))
            (whisper_args_for ''talk.wav'' (Some [])))
       = [ImportWhisper, LoadModel ''small'',
          Transcribe ''talk.wav'' [(''word_timestamps'', PyBool True), (''verbose'', PyBool False)]]
   \<and> ''language'' \<notin> fst ` set (build_options (Some []))"
  by (simp add: whisper_script_def whisper_main_def transcribe_audio_def whisper_world_def
        whisper_args_for_def build_options_def Let_def split: sum.splits)


section \<open>Properties of both adapters\<close>

text \<open>Claim C2, as amended: for a path that does not exist the diarization adapter prints
  the failure \<open>Audio file not found: \<close> followed by the path as given, exits with code 1
  and makes no call to the engine, not even the import. The transcription adapter, when
  the whisper library imports and the existence check answers that there is no such file,
  prints a failure that begins \<open>Audio file not found: \<close> and, for a path that
  \<open>pathlib\<close> writes as it was given, goes on with that path; it exits with code 1 and
  loads no model, its import of the library having happened when the module was loaded.
  When the library does not import, it prints the whisper-not-installed failure and exits
  with code 1 before any path is looked at.\<close>

theorem missing_audio_file:
  "(\<not> os_path_exists dw (audio_path dargs) \<longrightarrow>
      diarize_main dw dargs =
        ([], Exited (DiarFailure (''Audio file not found: '' @ audio_path dargs)) 1)
      \<and> sublist (audio_path dargs) (''Audio file not found: '' @ audio_path dargs))
   \<and> (whisper_importable ww \<and> path_exists ww (w_audio_path wargs) = Inr False \<longrightarrow>
      (\<exists>msg. whisper_script ww wargs = ([ImportWhisper], Exited (TransFailure msg) 1)
         \<and> prefix ''Audio file not found: '' msg
         \<and> (path_str ww (w_audio_path wargs) = w_audio_path wargs \<longrightarrow>
              msg = ''Audio file not found: '' @ w_audio_path wargs
              \<and> sublist (w_audio_path wargs) msg)))
   \<and> (\<not> whisper_importable ww \<longrightarrow>
      whisper_script ww wargs =
        ([ImportWhisper],
         Exited (TransFailure ''Whisper not installed. Run: pip install openai-whisper'') 1))"
proof -
  have sub: "sublist p (''Audio file not found: '' @ p)" for p :: string
    by (rule sublist_append_leftI)
  have a: "diarize_main dw dargs =
        ([], Exited (DiarFailure (''Audio file not found: '' @ audio_path dargs)) 1)"
    if "\<not> os_path_exists dw (audio_path dargs)"
    using that by (simp add: diarize_main_def)
  have b: "\<exists>msg. whisper_script ww wargs = ([ImportWhisper], Exited (TransFailure msg) 1)
         \<and> prefix ''Audio file not found: '' msg
         \<and> (path_str ww (w_audio_path wargs) = w_audio_path wargs \<longrightarrow>
              msg = ''Audio file not found: '' @ w_audio_path wargs
              \<and> sublist (w_audio_path wargs) msg)"
    if imp: "whisper_importable ww" and no: "path_exists ww (w_audio_path wargs) = Inr False"
  proof -
    let ?msg = "''Audio file not found: '' @ path_str ww (w_audio_path wargs)"
    have "whisper_script ww wargs = ([ImportWhisper], Exited (TransFailure ?msg) 1)"
      using imp no by (simp add: whisper_script_def whisper_main_def)
    moreover have "prefix ''Audio file not found: '' ?msg"
      by (rule prefixI) (rule refl)
    moreover have "path_str ww (w_audio_path wargs) = w_audio_path wargs \<longrightarrow>
              ?msg = ''Audio file not found: '' @ w_audio_path wargs
              \<and> sublist (w_audio_path wargs) ?msg"
      using sub [of "w_audio_path wargs"] by (simp del: append.simps)
    ultimately show ?thesis by blast
  qed
  have c: "whisper_script ww wargs =
        ([ImportWhisper],
         Exited (TransFailure ''Whisper not installed. Run: pip install openai-whisper'') 1)"
    if "\<not> whisper_importable ww"
    using that by (simp add: whisper_script_def)
  from a b c sub [of "audio_path dargs"] show ?thesis
    by blast
qed

theorem missing_audio_file_witness:
  "\<not> os_path_exists (engine_world Map.empty (Inr three_turns))
        (audio_path \<lparr>audio_path = ''missing.wav'', token = None, simple = False\<rparr>)
   \<and> diarize_main (engine_world Map.empty (Inr three_turns))
        \<lparr>audio_path = ''missing.wav'', token = None, simple = False\<rparr> =
       ([], Exited (DiarFailure ''Audio file not found: missing.wav'') 1)
   \<and> whisper_importable (whisper_world (Inr ()) (Inr two_by_two))
   \<and> path_exists (whisper_world (Inr ()) (Inr two_by_two))
         (w_audio_path (whisper_args_for ''missing.wav'' None)) = Inr False
   \<and> path_str (whisper_world (Inr ()) (Inr two_by_two))
         (w_audio_path (whisper_args_for ''missing.wav'' None))
       = w_audio_path (whisper_args_for ''missing.wav'' None)
   \<and> whisper_script (whisper_world (Inr ()) (Inr two_by_two)) (whisper_args_for ''missing.wav'' None) =
       ([ImportWhisper], Exited (TransFailure ''Audio file not found: missing.wav'') 1)
   \<and> \<not> whisper_importable ((whisper_world (Inr ()) (Inr two_by_two))\<lparr>whisper_importable := False\<rparr>)
   \<and> whisper_script ((whisper_world (Inr ()) (Inr two_by_two))\<lparr>whisper_importable := False\<rparr>)
        (whisper_args_for ''talk.wav'' None) =
       ([ImportWhisper],
        Exited (TransFailure ''Whisper not installed. Run: pip install openai-whisper'') 1)"
proof -
  let ?dw = "engine_world Map.empty (Inr three_turns)"
  let ?da = "\<lparr>audio_path = ''missing.wav'', token = None, simple = False\<rparr>"
  let ?ww = "whisper_world (Inr ()) (Inr two_by_two)"
  let ?wa = "whisper_args_for ''missing.wav'' None"
  have d: "\<not> os_path_exists ?dw (audio_path ?da)"
    by (simp add: engine_world_def)
  have i: "whisper_importable ?ww"
    by (simp add: whisper_world_def)
  have e: "path_exists ?ww (w_audio_path ?wa) = Inr False"
    by (simp add: whisper_world_def whisper_args_for_def)
  have s: "path_str ?ww (w_audio_path ?wa) = w_audio_path ?wa"
    by (simp add: whisper_world_def)
  have n: "\<not> whisper_importable (?ww\<lparr>whisper_importable := False\<rparr>)"
    by simp
  note t1 = missing_audio_file [of ?dw ?da ?ww ?wa]
  note t2 = missing_audio_file
    [of ?dw ?da "?ww\<lparr>whisper_importable := False\<rparr>" "whisper_args_for ''talk.wav'' None"]
  have c1: "diarize_main ?dw ?da = ([], Exited (DiarFailure ''Audio file not found: missing.wav'') 1)"
    using t1 d by simp
  have c2: "whisper_script ?ww ?wa =
       ([ImportWhisper], Exited (TransFailure ''Audio file not found: missing.wav'') 1)"
    using t1 i e s by (auto simp: whisper_args_for_def)
  have c3: "whisper_script (?ww\<lparr>whisper_importable := False\<rparr>) (whisper_args_for ''talk.wav'' None) =
       ([ImportWhisper],
        Exited (TransFailure ''Whisper not installed. Run: pip install openai-whisper'') 1)"
    using t2 n by blast
  from d c1 i e s c2 n c3 show ?thesis
    by blast
qed

text \<open>On a machine without whisper the failure printed for a missing file does not mention
  the path.\<close>

theorem missing_audio_file_counterexample:
  "path_exists ((whisper_world (Inr ()) (Inr two_by_two))\<lparr>whisper_importable := False\<rparr>)
      ''missing.wav'' = Inr False
   \<and> snd (whisper_script ((whisper_world (Inr ()) (Inr two_by_two))\<lparr>whisper_importable := False\<rparr>)
            (whisper_args_for ''missing.wav'' None)) =
       Exited (TransFailure ''Whisper not installed. Run: pip install openai-whisper'') 1
   \<and> \<not> sublist ''missing.wav'' ''Whisper not installed. Run: pip install openai-whisper''"
proof -
  have "\<not> sublist ''missing.wav'' ''Whisper not installed. Run: pip install openai-whisper''"
    by (auto dest!: set_mono_sublist)
  then show ?thesis
    by (simp add: whisper_script_def whisper_world_def whisper_args_for_def)
qed

lemma run_engine_raises:
  "from_pretrained w ''pyannote/speaker-diarization-3.1'' tok = Inl e \<Longrightarrow>
     snd (run_engine w tok path) = Inl e"
  "from_pretrained w ''pyannote/speaker-diarization-3.1'' tok = Inr p \<Longrightarrow> cuda_is_available w \<Longrightarrow>
     pipeline_to w p ''cuda'' = Inl e \<Longrightarrow> snd (run_engine w tok path) = Inl e"
  "from_pretrained w ''pyannote/speaker-diarization-3.1'' tok = Inr p \<Longrightarrow> cuda_is_available w \<Longrightarrow>
     pipeline_to w p ''cuda'' = Inr p' \<Longrightarrow> pipeline_call w p' path = Inl e \<Longrightarrow>
     snd (run_engine w tok path) = Inl e"
  "from_pretrained w ''pyannote/speaker-diarization-3.1'' tok = Inr p \<Longrightarrow> \<not> cuda_is_available w \<Longrightarrow>
     pipeline_call w p path = Inl e \<Longrightarrow> snd (run_engine w tok path) = Inl e"
  by (simp_all add: run_engine_def)

lemma run_engine_raises_only:
  assumes "snd (run_engine w tok path) = Inl e"
  shows "from_pretrained w ''pyannote/speaker-diarization-3.1'' tok = Inl e
         \<or> (\<exists>p. from_pretrained w ''pyannote/speaker-diarization-3.1'' tok = Inr p
                \<and> cuda_is_available w \<and> pipeline_to w p ''cuda'' = Inl e)
         \<or> (\<exists>p p'. from_pretrained w ''pyannote/speaker-diarization-3.1'' tok = Inr p
                \<and> cuda_is_available w \<and> pipeline_to w p ''cuda'' = Inr p'
                \<and> pipeline_call w p' path = Inl e)
         \<or> (\<exists>p. from_pretrained w ''pyannote/speaker-diarization-3.1'' tok = Inr p
                \<and> \<not> cuda_is_available w \<and> pipeline_call w p path = Inl e)"
  using assms by (auto simp: run_engine_def Let_def split: sum.splits if_splits)

lemma pyannote_engine_raises:
  assumes "pyannote_importable w" and "resolve_token hf_token (environ w) = Some tok"
    and "tok \<noteq> []" and "snd (run_engine w tok path) = Inl e"
  shows "snd (pyannote_diarization w path hf_token) = except_Exception DiarFailure e"
  using assms(4)
  unfolding pyannote_with_token [OF assms(1,2,3)]
  by (cases "run_engine w tok path") auto

text \<open>Claim C4, as amended: an instance of \<open>Exception\<close> raised by the engine (while the
  model or the pipeline is loaded, moved to the GPU or run) is caught: the adapter prints
  the failure document whose error is \<open>str(e)\<close>, be it empty or not, and exits with
  code 1.\<close>

theorem engine_exception_reported:
  "(whisper_importable ww \<and> path_exists ww (w_audio_path wargs) = Inr True
      \<and> load_model ww (model_name (w_model wargs)) = Inl (PyException msg) \<longrightarrow>
      snd (whisper_script ww wargs) = Exited (TransFailure msg) 1)
   \<and> (whisper_importable ww \<and> path_exists ww (w_audio_path wargs) = Inr True
      \<and> load_model ww (model_name (w_model wargs)) = Inr model
      \<and> transcribe ww model (w_audio_path wargs) (build_options (w_language wargs))
          = Inl (PyException msg) \<longrightarrow>
      snd (whisper_script ww wargs) = Exited (TransFailure msg) 1)
   \<and> (os_path_exists dw (audio_path dargs) \<and> \<not> simple dargs \<and> pyannote_importable dw
      \<and> resolve_token (token dargs) (environ dw) = Some tok \<and> tok \<noteq> []
      \<and> snd (run_engine dw tok (audio_path dargs)) = Inl (PyException msg) \<longrightarrow>
      snd (diarize_main dw dargs) = Exited (DiarFailure msg) 1)"
proof -
  have a: "snd (whisper_script ww wargs) = Exited (TransFailure msg) 1"
    if "whisper_importable ww" "path_exists ww (w_audio_path wargs) = Inr True"
       "load_model ww (model_name (w_model wargs)) = Inl (PyException msg)"
    using that by (simp add: whisper_script_runs transcribe_audio_def)
  have b: "snd (whisper_script ww wargs) = Exited (TransFailure msg) 1"
    if "whisper_importable ww" "path_exists ww (w_audio_path wargs) = Inr True"
       "load_model ww (model_name (w_model wargs)) = Inr model"
       "transcribe ww model (w_audio_path wargs) (build_options (w_language wargs))
          = Inl (PyException msg)"
    using that by (simp add: whisper_script_runs transcribe_audio_loaded)
  have c: "snd (diarize_main dw dargs) = Exited (DiarFailure msg) 1"
    if "os_path_exists dw (audio_path dargs)" "\<not> simple dargs" "pyannote_importable dw"
       "resolve_token (token dargs) (environ dw) = Some tok" "tok \<noteq> []"
       "snd (run_engine dw tok (audio_path dargs)) = Inl (PyException msg)"
  proof -
    have "snd (pyannote_diarization dw (audio_path dargs) (token dargs)) = Inr (DiarFailure msg)"
      using pyannote_engine_raises [OF that(3,4,5,6)] by simp
    then show ?thesis
      unfolding diarize_main_engine_path [OF that(1,2)]
      by (cases "pyannote_diarization dw (audio_path dargs) (token dargs)") (simp add: finish_def)
  qed
  from a b c show ?thesis by blast
qed


theorem engine_exception_reported_witness:
  "whisper_importable (whisper_world (Inl (PyException ''CUDA out of memory'')) (Inr two_by_two))
   \<and> path_exists (whisper_world (Inl (PyException ''CUDA out of memory'')) (Inr two_by_two))
        (w_audio_path (whisper_args_for ''talk.wav'' None)) = Inr True
   \<and> load_model (whisper_world (Inl (PyException ''CUDA out of memory'')) (Inr two_by_two))
        (model_name (w_model (whisper_args_for ''talk.wav'' None)))
       = Inl (PyException ''CUDA out of memory'')
   \<and> snd (whisper_script (whisper_world (Inl (PyException ''CUDA out of memory'')) (Inr two_by_two))
            (whisper_args_for ''talk.wav'' None))
       = Exited (TransFailure ''CUDA out of memory'') 1
   \<and> load_model (whisper_world (Inr ()) (Inl (PyException ''Failed to load audio'')))
        (model_name (w_model (whisper_args_for ''talk.wav'' None))) = Inr ()
   \<and> transcribe (whisper_world (Inr ()) (Inl (PyException ''Failed to load audio''))) ()
        (w_audio_path (whisper_args_for ''talk.wav'' None))
        (build_options (w_language (whisper_args_for ''talk.wav'' None)))
       = Inl (PyException ''Failed to load audio'')
   \<and> snd (whisper_script (whisper_world (Inr ()) (Inl (PyException ''Failed to load audio'')))
            (whisper_args_for ''talk.wav'' None))
       = Exited (TransFailure ''Failed to load audio'') 1
   \<and> os_path_exists (engine_world [''HF_TOKEN'' \<mapsto> ''hf_secondary''] (Inl (PyException ''Unsupported format'')))
        (audio_path (engine_args None))
   \<and> \<not> simple (engine_args None)
   \<and> pyannote_importable (engine_world [''HF_TOKEN'' \<mapsto> ''hf_secondary''] (Inl (PyException ''Unsupported format'')))
   \<and> resolve_token (token (engine_args None))
        (environ (engine_world [''HF_TOKEN'' \<mapsto> ''hf_secondary''] (Inl (PyException ''Unsupported format''))))
       = Some ''hf_secondary''
   \<and> snd (run_engine (engine_world [''HF_TOKEN'' \<mapsto> ''hf_secondary''] (Inl (PyException ''Unsupported format'')))
            ''hf_secondary'' (audio_path (engine_args None)))
       = Inl (PyException ''Unsupported format'')
   \<and> snd (diarize_main (engine_world [''HF_TOKEN'' \<mapsto> ''hf_secondary''] (Inl (PyException ''Unsupported format'')))
            (engine_args None))
       = Exited (DiarFailure ''Unsupported format'') 1"
  using
    engine_exception_reported
      [of "whisper_world (Inl (PyException ''CUDA out of memory'')) (Inr two_by_two)"
          "whisper_args_for ''talk.wav'' None" "''CUDA out of memory''" "()"
          "engine_world [''HF_TOKEN'' \<mapsto> ''hf_secondary''] (Inl (PyException ''Unsupported format''))"
          "engine_args None" "''hf_secondary''"]
    engine_exception_reported
      [of "whisper_world (Inr ()) (Inl (PyException ''Failed to load audio''))"
          "whisper_args_for ''talk.wav'' None" "''Failed to load audio''" "()"
          "engine_world [''HF_TOKEN'' \<mapsto> ''hf_secondary''] (Inl (PyException ''Unsupported format''))"
          "engine_args None" "''hf_secondary''"]
    engine_exception_reported
      [of "whisper_world (Inr ()) (Inl (PyException ''Failed to load audio''))"
          "whisper_args_for ''talk.wav'' None" "''Unsupported format''" "()"
          "engine_world [''HF_TOKEN'' \<mapsto> ''hf_secondary''] (Inl (PyException ''Unsupported format''))"
          "engine_args None" "''hf_secondary''"]
  by (simp add: whisper_world_def whisper_args_for_def engine_world_def engine_args_def
        resolve_token_cases run_engine_def)

text \<open>An exception whose \<open>str\<close> is empty gives an empty error; an exception that is not
  an \<open>Exception\<close> (here a keyboard interrupt while the model loads) is not caught.\<close>

theorem engine_exception_reported_counterexample:
  "load_model (whisper_world (Inl (PyException [])) (Inr two_by_two)) ''small'' = Inl (PyException [])
   \<and> snd (whisper_script (whisper_world (Inl (PyException [])) (Inr two_by_two))
            (whisper_args_for ''talk.wav'' None))
       = Exited (TransFailure []) 1
   \<and> \<not> t_error (TransFailure []) \<noteq> []
   \<and> load_model (whisper_world (Inl (PyBaseException ''KeyboardInterrupt'')) (Inr two_by_two)) ''small''
       = Inl (PyBaseException ''KeyboardInterrupt'')
   \<and> snd (whisper_script (whisper_world (Inl (PyBaseException ''KeyboardInterrupt'')) (Inr two_by_two))
            (whisper_args_for ''talk.wav'' None))
       = Unhandled (PyBaseException ''KeyboardInterrupt'')"
  by (simp add: whisper_script_def whisper_main_def transcribe_audio_def whisper_world_def
        whisper_args_for_def)

end
